theory Spec2Isabelle
  imports Main "HOL-Library.Char_ord" "HOL-Library.List_Lexorder"
begin

section \<open>Exceptions\<close>

text \<open>
  The exception classes the pipeline meets. Every constructor stands for a subclass of
  Python's \<open>Exception\<close>, so a handler \<open>except Exception\<close> catches all of them;
  \<open>ClientError\<close> carries \<open>response['Error']['Code']\<close> and the message. The
  second component is what \<open>str(e)\<close> returns.
\<close>

datatype exn =
    ValueError string
  | IndexError string
  | OverflowError string
  | FileNotFoundError string
  | NotFound string
  | ClientError string string
  | OtherException string

fun str :: "exn \<Rightarrow> string" where
  "str (ValueError m) = m"
| "str (IndexError m) = m"
| "str (OverflowError m) = m"
| "str (FileNotFoundError m) = m"
| "str (NotFound m) = m"
| "str (ClientError code m) = m"
| "str (OtherException m) = m"

section \<open>Python string operations used by the pipeline\<close>

text \<open>\<open>s.split(sep)\<close> for a one-character separator: always at least one part.\<close>

fun split :: "char \<Rightarrow> string \<Rightarrow> string list" where
  "split sep [] = [[]]"
| "split sep (c # cs) =
     (if c = sep then [] # split sep cs
      else (case split sep cs of
              [] \<Rightarrow> [[c]]
            | p # ps \<Rightarrow> (c # p) # ps))"

text \<open>\<open>s.startswith(p)\<close>.\<close>

fun startswith :: "string \<Rightarrow> string \<Rightarrow> bool" where
  "startswith s [] = True"
| "startswith [] (p # ps) = False"
| "startswith (c # cs) (p # ps) = (c = p \<and> startswith cs ps)"

text \<open>\<open>s.rstrip(c)\<close> for a single character: drops every trailing \<open>c\<close>.\<close>

definition rstrip :: "char \<Rightarrow> string \<Rightarrow> string" where
  "rstrip c s = rev (dropWhile (\<lambda>x. x = c) (rev s))"

text \<open>
  \<open>s.replace(old, new)\<close> for a non-empty \<open>old\<close>: every non-overlapping occurrence,
  scanning from the left. (The pipeline only calls it with \<open>'/data.parquet'\<close>.)
\<close>

function replace :: "string \<Rightarrow> string \<Rightarrow> string \<Rightarrow> string" where
  "replace old new s =
     (if old = [] \<or> s = [] then s
      else if startswith s old then new @ replace old new (drop (length old) s)
      else hd s # replace old new (tl s))"
  by pat_completeness auto
termination
  by (relation "measure (\<lambda>(old, new, s). length s)") auto

declare replace.simps [simp del]

text \<open>\<open>s.zfill(width)\<close>: zeros on the left, after a leading sign.\<close>

definition zfill :: "nat \<Rightarrow> string \<Rightarrow> string" where
  "zfill width s =
     (if width \<le> length s then s
      else (case s of
              [] \<Rightarrow> replicate width CHR ''0''
            | c # cs \<Rightarrow>
                if c = CHR ''+'' \<or> c = CHR ''-''
                then c # replicate (width - length s) CHR ''0'' @ cs
                else replicate (width - length s) CHR ''0'' @ s))"

text \<open>\<open>sorted(xs, reverse=True)\<close> on strings: code-point order, descending.\<close>

definition sorted_reverse :: "string list \<Rightarrow> string list" where
  "sorted_reverse xs = rev (sort xs)"

text \<open>Decimal digits: \<open>\<close>\<open>\d\<close> on the characters a \<open>char\<close> can hold.\<close>

definition is_digit :: "char \<Rightarrow> bool" where
  "is_digit c = (c \<in> set ''0123456789'')"

definition digit_val :: "char \<Rightarrow> int" where
  "digit_val c = int (of_char c) - 48"

text \<open>\<open>int(s)\<close> on a string of digits with optional leading blanks, as strptime calls it.\<close>

definition int_of_digits :: "string \<Rightarrow> int" where
  "int_of_digits s = foldl (\<lambda>a c. 10 * a + digit_val c) 0 (dropWhile (\<lambda>c. c = CHR '' '') s)"

definition digit_char :: "int \<Rightarrow> char" where
  "digit_char n = ''0123456789'' ! nat n"

section \<open>The calendar of Python's datetime\<close>

text \<open>
  A \<open>datetime\<close> produced by \<open>strptime\<close> with a date-only format sits at midnight;
  it is modelled by its proleptic Gregorian ordinal (\<open>date.toordinal()\<close>), day 1 being
  0001-01-01 and day \<open>MAXORDINAL\<close> being 9999-12-31. Comparison is comparison of
  ordinals, \<open>(b - a).days\<close> is their difference.
\<close>

type_synonym datetime = int

definition MINYEAR :: int where "MINYEAR = 1"
definition MAXYEAR :: int where "MAXYEAR = 9999"
definition MAXORDINAL :: int where "MAXORDINAL = 3652059"

definition is_leap :: "int \<Rightarrow> bool" where
  "is_leap y = (y mod 4 = 0 \<and> (y mod 100 \<noteq> 0 \<or> y mod 400 = 0))"

definition days_before_year :: "int \<Rightarrow> int" where
  "days_before_year year = (let y = year - 1 in y * 365 + y div 4 - y div 100 + y div 400)"

definition DAYS_IN_MONTH :: "int list" where
  "DAYS_IN_MONTH = [31, 28, 31, 30, 31, 30, 31, 31, 30, 31, 30, 31]"

definition days_in_month :: "int \<Rightarrow> int \<Rightarrow> int" where
  "days_in_month year month =
     (if month = 2 \<and> is_leap year then 29 else DAYS_IN_MONTH ! nat (month - 1))"

definition days_before_month :: "int \<Rightarrow> int \<Rightarrow> int" where
  "days_before_month year month =
     sum_list (take (nat (month - 1)) DAYS_IN_MONTH) + (if 2 < month \<and> is_leap year then 1 else 0)"

definition ymd2ord :: "int \<Rightarrow> int \<Rightarrow> int \<Rightarrow> int" where
  "ymd2ord year month day = days_before_year year + days_before_month year month + day"

text \<open>The inverse, as \<open>_ord2ymd\<close> computes it: 400-, 100-, 4- and 1-year cycles.\<close>

definition ord2ymd :: "int \<Rightarrow> int \<times> int \<times> int" where
  "ord2ymd ordinal =
     (let n = ordinal - 1;
          n400 = n div 146097; n = n mod 146097;
          n100 = n div 36524; n = n mod 36524;
          n4 = n div 1461; n = n mod 1461;
          n1 = n div 365; n = n mod 365;
          year = n400 * 400 + 1 + n100 * 100 + n4 * 4 + n1
      in if n1 = 4 \<or> n100 = 4 then (year - 1, 12, 31)
         else
           let leapyear = (n1 = 3 \<and> (n4 \<noteq> 24 \<or> n100 = 3));
               month = (n + 50) div 32;
               preceding = sum_list (take (nat (month - 1)) DAYS_IN_MONTH)
                           + (if 2 < month \<and> leapyear then 1 else 0)
           in if n < preceding
              then (let month' = month - 1;
                        preceding' = preceding
                          - (DAYS_IN_MONTH ! nat (month' - 1)
                             + (if month' = 2 \<and> leapyear then 1 else 0))
                    in (year, month', n - preceding' + 1))
              else (year, month, n - preceding + 1))"

text \<open>
  \<open>d + timedelta(days=k)\<close>: OverflowError when the result leaves
  \<open>[datetime.min, datetime.max]\<close>.
\<close>

definition add_days :: "datetime \<Rightarrow> int \<Rightarrow> exn + datetime" where
  "add_days d k =
     (if 1 \<le> d + k \<and> d + k \<le> MAXORDINAL then Inr (d + k)
      else Inl (OverflowError ''date value out of range''))"

subsection \<open>strftime\<close>

definition fmt_year :: "int \<Rightarrow> string" where
  "fmt_year n =
     (if n < 10 then [digit_char n]
      else if n < 100 then [digit_char (n div 10), digit_char (n mod 10)]
      else if n < 1000 then [digit_char (n div 100), digit_char (n div 10 mod 10),
                             digit_char (n mod 10)]
      else [digit_char (n div 1000 mod 10), digit_char (n div 100 mod 10),
            digit_char (n div 10 mod 10), digit_char (n mod 10)])"

definition fmt2 :: "int \<Rightarrow> string" where
  "fmt2 n = [digit_char (n div 10 mod 10), digit_char (n mod 10)]"

text \<open>
  \<open>d.strftime('%Y-%m-%d')\<close>. CPython hands \<open>%Y\<close> to the C library, which on
  Linux writes the year in decimal without padding (the year 999 is \<open>999\<close>); month
  and day have two digits.
\<close>

definition strftime_ymd :: "datetime \<Rightarrow> string" where
  "strftime_ymd d = (case ord2ymd d of (y, m, dd) \<Rightarrow> fmt_year y @ ''-'' @ fmt2 m @ ''-'' @ fmt2 dd)"

subsection \<open>strptime\<close>

text \<open>
  \<open>datetime.strptime(s, fmt)\<close> turns the format into a regular expression, one group per
  directive, and matches it against the start of \<open>s\<close> with backtracking:
  \<open>%Y\<close> is \<open>\<close>\<open>\d\d\d\d\<close>, \<open>%m\<close> is \<open>1[0-2]|0[1-9]|[1-9]\<close> and \<open>%d\<close> is
  \<open>3[01]|[12]\<close>\<open>\d|0[1-9]|[1-9]| [1-9]\<close>. Text left over after the match, a year 0
  and a day beyond the month's length are ValueErrors.
\<close>

datatype directive = DirY | DirM | DirD | Lit char

definition nonzero_digit :: "char \<Rightarrow> bool" where
  "nonzero_digit c = (c \<in> set ''123456789'')"

text \<open>The ways a directive matches a prefix of the input, in the order the regex tries them.\<close>

fun alternatives :: "directive \<Rightarrow> string \<Rightarrow> (string \<times> string) list" where
  "alternatives DirY s =
     (case s of
        a # b # c # d # r \<Rightarrow>
          if is_digit a \<and> is_digit b \<and> is_digit c \<and> is_digit d then [([a, b, c, d], r)] else []
      | _ \<Rightarrow> [])"
| "alternatives DirM s =
     (case s of
        a # b # r \<Rightarrow>
          (if a = CHR ''1'' \<and> b \<in> set ''012'' then [([a, b], r)] else [])
          @ (if a = CHR ''0'' \<and> nonzero_digit b then [([a, b], r)] else [])
      | _ \<Rightarrow> [])
     @ (case s of
          a # r \<Rightarrow> if nonzero_digit a then [([a], r)] else []
        | [] \<Rightarrow> [])"
| "alternatives DirD s =
     (case s of
        a # b # r \<Rightarrow>
          (if a = CHR ''3'' \<and> b \<in> set ''01'' then [([a, b], r)] else [])
          @ (if a \<in> set ''12'' \<and> is_digit b then [([a, b], r)] else [])
          @ (if a = CHR ''0'' \<and> nonzero_digit b then [([a, b], r)] else [])
      | _ \<Rightarrow> [])
     @ (case s of
          a # r \<Rightarrow> if nonzero_digit a then [([a], r)] else []
        | [] \<Rightarrow> [])
     @ (case s of
          a # b # r \<Rightarrow> if a = CHR '' '' \<and> nonzero_digit b then [([a, b], r)] else []
        | _ \<Rightarrow> [])"
| "alternatives (Lit c) s =
     (case s of
        a # r \<Rightarrow> if a = c then [([a], r)] else []
      | [] \<Rightarrow> [])"

fun first_some :: "'a option list \<Rightarrow> 'a option" where
  "first_some [] = None"
| "first_some (None # xs) = first_some xs"
| "first_some (Some x # xs) = Some x"

fun match_format :: "directive list \<Rightarrow> string \<Rightarrow> ((directive \<times> string) list \<times> string) option" where
  "match_format [] s = Some ([], s)"
| "match_format (d # ds) s =
     first_some (map (\<lambda>(m, r). case match_format ds r of
                                  None \<Rightarrow> None
                                | Some (found, rest) \<Rightarrow> Some ((d, m) # found, rest))
                     (alternatives d s))"

definition group :: "(directive \<times> string) list \<Rightarrow> directive \<Rightarrow> int \<Rightarrow> int" where
  "group found d dflt = (case map_of found d of None \<Rightarrow> dflt | Some t \<Rightarrow> int_of_digits t)"

definition strptime :: "string \<Rightarrow> directive list \<Rightarrow> exn + datetime" where
  "strptime s fmt =
     (case match_format fmt s of
        None \<Rightarrow> Inl (ValueError ''time data does not match format'')
      | Some (found, rest) \<Rightarrow>
          if rest \<noteq> [] then Inl (ValueError ''unconverted data remains'')
          else
            let year = group found DirY 1900; month = group found DirM 1; day = group found DirD 1
            in if year < MINYEAR then Inl (ValueError ''year is out of range'')
               else if days_in_month year month < day
               then Inl (ValueError ''day is out of range for month'')
               else Inr (ymd2ord year month day))"

text \<open>The two formats of the repository: \<open>'%Y-%m-%d'\<close> and \<open>'%Y%m%d'\<close>.\<close>

definition FMT_DASHED :: "directive list" where
  "FMT_DASHED = [DirY, Lit CHR ''-'', DirM, Lit CHR ''-'', DirD]"

definition FMT_COMPACT :: "directive list" where
  "FMT_COMPACT = [DirY, DirM, DirD]"

section \<open>The outside world: object store, warehouse, files\<close>

text \<open>
  Everything the three classes reach through \<open>boto3\<close>, \<open>google.cloud.bigquery\<close>,
  \<open>pandas\<close> and the file system is state of one \<open>world\<close> value that every
  operation takes and returns. The bucket is a list of keys (object bodies are never
  read back by the pipeline), the warehouse a dataset with its table ids. What a query
  returns, what \<open>str.format\<close> makes of the query template, whether \<open>to_parquet\<close>
  succeeds and what the clock shows are fields of the world, so a theorem about every
  world is a theorem about every such behaviour. \<open>faults\<close> lets any remote call
  raise any exception: the call number \<open>n\<close> (counted from 0 by the length of
  \<open>trace\<close>) raises \<open>e\<close> when \<open>faults n = Some e\<close>. \<open>trace\<close> records every
  remote call made.
\<close>

record dataframe =
  nrows :: nat
  columns :: "string list"

text \<open>\<open>df.empty\<close>: some axis has length 0. \<open>len(df)\<close> is \<open>nrows\<close>.\<close>

definition df_empty :: "dataframe \<Rightarrow> bool" where
  "df_empty df = (nrows df = 0 \<or> columns df = [])"

text \<open>\<open>pd.DataFrame()\<close>.\<close>

definition DataFrame :: dataframe where
  "DataFrame = \<lparr>nrows = 0, columns = []\<rparr>"

datatype api_call =
    HeadObject string
  | PutObject string
  | ListObjectsV2 string char
  | HeadBucket
  | CreateBucket
  | GetTable string
  | RunQuery string
  | ListTables string
  | GetDataset string

record world =
  s3_bucket_exists :: bool
  s3_objects :: "string list"
  bq_dataset :: string
  bq_tables :: "string list"
  query_result :: "string \<Rightarrow> dataframe"
  queries_dir :: string
  query_files :: "string \<Rightarrow> (exn + string) option"
  format_query :: "string \<Rightarrow> string \<Rightarrow> string \<Rightarrow> exn + string"
  to_parquet :: "dataframe \<Rightarrow> exn + nat"
  today :: datetime
  faults :: "nat \<Rightarrow> exn option"
  trace :: "api_call list"

text \<open>A remote call: logged, and failing when the fault schedule says so.\<close>

definition remote :: "world \<Rightarrow> api_call \<Rightarrow> exn option \<times> world" where
  "remote w c = (faults w (length (trace w)), w\<lparr>trace := trace w @ [c]\<rparr>)"

subsection \<open>The S3 client\<close>

definition head_object :: "world \<Rightarrow> string \<Rightarrow> (exn + unit) \<times> world" where
  "head_object w k =
     (case remote w (HeadObject k) of
        (Some e, w') \<Rightarrow> (Inl e, w')
      | (None, w') \<Rightarrow>
          if s3_bucket_exists w' \<and> k \<in> set (s3_objects w') then (Inr (), w')
          else (Inl (ClientError ''404'' ''Not Found''), w'))"

definition put_object :: "world \<Rightarrow> string \<Rightarrow> (exn + unit) \<times> world" where
  "put_object w k =
     (case remote w (PutObject k) of
        (Some e, w') \<Rightarrow> (Inl e, w')
      | (None, w') \<Rightarrow>
          if s3_bucket_exists w' then (Inr (), w'\<lparr>s3_objects := List.insert k (s3_objects w')\<rparr>)
          else (Inl (ClientError ''NoSuchBucket'' ''The specified bucket does not exist''), w'))"

text \<open>
  \<open>list_objects_v2(Prefix, Delimiter)\<close>: a key under the prefix whose remainder holds
  the delimiter is rolled up into the common prefix that ends at the first delimiter
  after \<open>Prefix\<close>; the other keys are listed as they are. One response holds at most
  1000 entries, keys and common prefixes together, in key order. The model returns the
  response's \<open>CommonPrefixes\<close> (the empty list when the field is absent).
\<close>

definition rollup :: "string \<Rightarrow> char \<Rightarrow> string \<Rightarrow> string" where
  "rollup pfx delim k =
     (let rest = drop (length pfx) k
      in if delim \<in> set rest then pfx @ takeWhile (\<lambda>c. c \<noteq> delim) rest @ [delim] else k)"

definition common_prefixes :: "string \<Rightarrow> char \<Rightarrow> string list \<Rightarrow> string list" where
  "common_prefixes pfx delim keys =
     filter (\<lambda>e. delim \<in> set (drop (length pfx) e))
       (take 1000 (remdups (sort (map (rollup pfx delim) (filter (\<lambda>k. startswith k pfx) keys)))))"

definition list_objects_v2 :: "world \<Rightarrow> string \<Rightarrow> char \<Rightarrow> (exn + string list) \<times> world" where
  "list_objects_v2 w pfx delim =
     (case remote w (ListObjectsV2 pfx delim) of
        (Some e, w') \<Rightarrow> (Inl e, w')
      | (None, w') \<Rightarrow>
          if s3_bucket_exists w' then (Inr (common_prefixes pfx delim (s3_objects w')), w')
          else (Inl (ClientError ''NoSuchBucket'' ''The specified bucket does not exist''), w'))"

definition head_bucket :: "world \<Rightarrow> (exn + unit) \<times> world" where
  "head_bucket w =
     (case remote w HeadBucket of
        (Some e, w') \<Rightarrow> (Inl e, w')
      | (None, w') \<Rightarrow>
          if s3_bucket_exists w' then (Inr (), w')
          else (Inl (ClientError ''404'' ''Not Found''), w'))"

definition create_bucket :: "world \<Rightarrow> (exn + unit) \<times> world" where
  "create_bucket w =
     (case remote w CreateBucket of
        (Some e, w') \<Rightarrow> (Inl e, w')
      | (None, w') \<Rightarrow> (Inr (), w'\<lparr>s3_bucket_exists := True\<rparr>))"

subsection \<open>The BigQuery client\<close>

definition get_table :: "world \<Rightarrow> string \<Rightarrow> (exn + unit) \<times> world" where
  "get_table w name =
     (case remote w (GetTable name) of
        (Some e, w') \<Rightarrow> (Inl e, w')
      | (None, w') \<Rightarrow>
          if name \<in> set (map (\<lambda>t. bq_dataset w' @ ''.'' @ t) (bq_tables w')) then (Inr (), w')
          else (Inl (NotFound ''Not found: Table''), w'))"

text \<open>\<open>client.query(q).to_dataframe()\<close>.\<close>

definition run_query :: "world \<Rightarrow> string \<Rightarrow> (exn + dataframe) \<times> world" where
  "run_query w q =
     (case remote w (RunQuery q) of
        (Some e, w') \<Rightarrow> (Inl e, w')
      | (None, w') \<Rightarrow> (Inr (query_result w' q), w'))"

definition list_tables :: "world \<Rightarrow> string \<Rightarrow> (exn + string list) \<times> world" where
  "list_tables w ds =
     (case remote w (ListTables ds) of
        (Some e, w') \<Rightarrow> (Inl e, w')
      | (None, w') \<Rightarrow>
          if ds = bq_dataset w' then (Inr (bq_tables w'), w')
          else (Inl (NotFound ''Not found: Dataset''), w'))"

definition get_dataset :: "world \<Rightarrow> string \<Rightarrow> (exn + unit) \<times> world" where
  "get_dataset w ds =
     (case remote w (GetDataset ds) of
        (Some e, w') \<Rightarrow> (Inl e, w')
      | (None, w') \<Rightarrow>
          if ds = bq_dataset w' then (Inr (), w')
          else (Inl (NotFound ''Not found: Dataset''), w'))"

section \<open>BigQueryExtractor\<close>

record bq_extractor =
  project_id :: string
  dataset_id :: string

text \<open>\<open>_table_exists\<close>: only \<open>NotFound\<close> is caught.\<close>

definition table_exists :: "world \<Rightarrow> string \<Rightarrow> (exn + bool) \<times> world" where
  "table_exists w table_name =
     (case get_table w table_name of
        (Inr u, w') \<Rightarrow> (Inr True, w')
      | (Inl (NotFound m), w') \<Rightarrow> (Inr False, w')
      | (Inl e, w') \<Rightarrow> (Inl e, w'))"

text \<open>\<open>_load_query\<close>: the file \<open>config/queries/<name>.sql\<close>, read from disk.\<close>

definition load_query :: "world \<Rightarrow> string \<Rightarrow> exn + string" where
  "load_query w query_name =
     (case query_files w query_name of
        None \<Rightarrow> Inl (FileNotFoundError
                  (''Query file not found: '' @ queries_dir w @ ''/'' @ query_name @ ''.sql''))
      | Some content \<Rightarrow> content)"

definition build_events_query :: "world \<Rightarrow> string \<Rightarrow> string \<Rightarrow> exn + string" where
  "build_events_query w table_name date_arg =
     (let event_date = replace ''-'' [] date_arg
      in case load_query w ''extract_events'' of
           Inl e \<Rightarrow> Inl e
         | Inr query_template \<Rightarrow> format_query w query_template table_name event_date)"

definition extract_events :: "bq_extractor \<Rightarrow> world \<Rightarrow> string \<Rightarrow> (exn + dataframe) \<times> world" where
  "extract_events ex w date_arg =
     (let table_date = replace ''-'' [] date_arg;
          table_name = project_id ex @ ''.'' @ dataset_id ex @ ''.events_'' @ table_date
      in case table_exists w table_name of
           (Inl e, w1) \<Rightarrow> (Inl e, w1)
         | (Inr False, w1) \<Rightarrow> (Inr DataFrame, w1)
         | (Inr True, w1) \<Rightarrow>
             (case build_events_query w1 table_name date_arg of
                Inl e \<Rightarrow> (Inl e, w1)
              | Inr query \<Rightarrow> run_query w1 query))"

text \<open>
  The body of the loop of \<open>get_available_dates\<close> for one table id: the formatted date
  when the id is \<open>events_YYYYMMDD\<close> and recent enough, nothing otherwise (the
  ValueError of \<open>strptime\<close> and the IndexError of \<open>[1]\<close> are caught).
\<close>

definition table_date_of :: "world \<Rightarrow> int \<Rightarrow> string \<Rightarrow> string list" where
  "table_date_of w days_back table_id =
     (if startswith table_id ''events_'' then
        (case split CHR ''_'' table_id of
           p0 # date_str # ps \<Rightarrow>
             (case strptime date_str FMT_COMPACT of
                Inl e \<Rightarrow> []
              | Inr date_obj \<Rightarrow>
                  if today w - date_obj \<le> days_back then [strftime_ymd date_obj] else [])
         | _ \<Rightarrow> [])
      else [])"

definition get_available_dates :: "bq_extractor \<Rightarrow> world \<Rightarrow> int \<Rightarrow> (exn + string list) \<times> world" where
  "get_available_dates ex w days_back =
     (case list_tables w (project_id ex @ ''.'' @ dataset_id ex) of
        (Inl e, w1) \<Rightarrow> (Inl e, w1)
      | (Inr tables, w1) \<Rightarrow>
          (Inr (sorted_reverse (concat (map (table_date_of w1 days_back) tables))), w1))"

text \<open>\<open>BigQueryExtractor.test_connection\<close>: every exception becomes \<open>False\<close>.\<close>

definition bq_test_connection :: "bq_extractor \<Rightarrow> world \<Rightarrow> bool \<times> world" where
  "bq_test_connection ex w =
     (case get_dataset w (project_id ex @ ''.'' @ dataset_id ex) of
        (Inr u, w1) \<Rightarrow> (True, w1)
      | (Inl e, w1) \<Rightarrow> (False, w1))"

section \<open>S3Loader\<close>

record s3_loader =
  bucket_name :: string
  prefix :: string
  use_localstack :: bool

definition S3Loader :: "string \<Rightarrow> string \<Rightarrow> bool \<Rightarrow> s3_loader" where
  "S3Loader bucket pfx localstack =
     \<lparr>bucket_name = bucket, prefix = rstrip CHR ''/'' pfx, use_localstack = localstack\<rparr>"

text \<open>
  \<open>year, month, day = date.split('-')\<close> followed by the f-string of the key, shared by
  \<open>upload_events\<close> and \<open>check_exists\<close>. Unpacking anything but three parts is a
  ValueError.
\<close>

definition partition_key :: "s3_loader \<Rightarrow> string \<Rightarrow> string \<Rightarrow> exn + string" where
  "partition_key ld data_type date_arg =
     (case split CHR ''-'' date_arg of
        [year, month, day] \<Rightarrow>
          Inr (prefix ld @ ''/'' @ data_type @ ''/year='' @ year @ ''/month='' @ month
               @ ''/day='' @ day @ ''/data.parquet'')
      | parts \<Rightarrow>
          if length parts < 3
          then Inl (ValueError (''not enough values to unpack (expected 3, got ''
                                @ [digit_char (int (length parts))] @ '')''))
          else Inl (ValueError ''too many values to unpack (expected 3)''))"

text \<open>
  \<open>_upload_metadata\<close>: the sidecar object next to the data object. A failing
  \<open>put_object\<close> (or \<open>json.dumps\<close>) is logged and swallowed; the function returns
  nothing either way.
\<close>

definition upload_metadata :: "s3_loader \<Rightarrow> world \<Rightarrow> string \<Rightarrow> world" where
  "upload_metadata ld w key =
     (let metadata_key = replace ''/data.parquet'' ''/metadata.json'' key
      in case put_object w metadata_key of
           (Inl e, w1) \<Rightarrow> w1
         | (Inr u, w1) \<Rightarrow> w1)"

text \<open>
  \<open>upload_events\<close>: \<open>None\<close> for an empty frame; otherwise the key, after the data
  object and its metadata were written. Its handler logs and re-raises.
\<close>

definition upload_events ::
  "s3_loader \<Rightarrow> world \<Rightarrow> dataframe \<Rightarrow> string \<Rightarrow> string \<Rightarrow> (exn + string option) \<times> world" where
  "upload_events ld w df date_arg data_type =
     (if df_empty df then (Inr None, w)
      else
        (case partition_key ld data_type date_arg of
           Inl e \<Rightarrow> (Inl e, w)
         | Inr key \<Rightarrow>
             (case to_parquet w df of
                Inl e \<Rightarrow> (Inl e, w)
              | Inr parquet_size \<Rightarrow>
                  (case put_object w key of
                     (Inl e, w1) \<Rightarrow> (Inl e, w1)
                   | (Inr u, w1) \<Rightarrow> (Inr (Some key), upload_metadata ld w1 key)))))"

text \<open>\<open>check_exists\<close>: a ClientError with code 404 is "absent", anything else is raised.\<close>

definition check_exists :: "s3_loader \<Rightarrow> world \<Rightarrow> string \<Rightarrow> string \<Rightarrow> (exn + bool) \<times> world" where
  "check_exists ld w date_arg data_type =
     (case partition_key ld data_type date_arg of
        Inl e \<Rightarrow> (Inl e, w)
      | Inr key \<Rightarrow>
          (case head_object w key of
             (Inr u, w1) \<Rightarrow> (Inr True, w1)
           | (Inl (ClientError code m), w1) \<Rightarrow>
               if code = ''404'' then (Inr False, w1) else (Inl (ClientError code m), w1)
           | (Inl e, w1) \<Rightarrow> (Inl e, w1)))"

text \<open>
  The body of the loop of \<open>list_available_dates\<close> for one common prefix: the date when
  the path has a \<open>year=\<close>, a \<open>month=\<close> and a \<open>day=\<close> part, nothing when an index
  is out of range (the IndexError is caught).
\<close>

definition date_of_prefix :: "string \<Rightarrow> string list" where
  "date_of_prefix p =
     (let path_parts = split CHR ''/'' (rstrip CHR ''/'' p)
      in case filter (\<lambda>x. startswith x ''year='') path_parts of
           [] \<Rightarrow> []
         | year_part # ys \<Rightarrow>
             (case filter (\<lambda>x. startswith x ''month='') path_parts of
                [] \<Rightarrow> []
              | month_part # ms \<Rightarrow>
                  (case filter (\<lambda>x. startswith x ''day='') path_parts of
                     [] \<Rightarrow> []
                   | day_part # ds \<Rightarrow>
                       (case (split CHR ''='' year_part, split CHR ''='' month_part,
                              split CHR ''='' day_part) of
                          (y0 # year # yr, m0 # month # mr, d0 # day # dr) \<Rightarrow>
                            [year @ ''-'' @ zfill 2 month @ ''-'' @ zfill 2 day]
                        | _ \<Rightarrow> []))))"

text \<open>
  \<open>list_available_dates\<close>: one \<open>list_objects_v2\<close> call on
  \<open>{prefix}/{data_type}/\<close> with delimiter \<open>/\<close>; every exception becomes \<open>[]\<close>.
\<close>

definition list_available_dates :: "s3_loader \<Rightarrow> world \<Rightarrow> string \<Rightarrow> nat \<Rightarrow> string list \<times> world" where
  "list_available_dates ld w data_type limit =
     (case list_objects_v2 w (prefix ld @ ''/'' @ data_type @ ''/'') CHR ''/'' of
        (Inl e, w1) \<Rightarrow> ([], w1)
      | (Inr cps, w1) \<Rightarrow> (take limit (sorted_reverse (concat (map date_of_prefix cps))), w1))"

text \<open>
  \<open>S3Loader.test_connection\<close>: on LocalStack a missing bucket (404) is created; every
  exception that remains becomes \<open>False\<close>.
\<close>

definition s3_test_connection :: "s3_loader \<Rightarrow> world \<Rightarrow> bool \<times> world" where
  "s3_test_connection ld w =
     (case head_bucket w of
        (Inr u, w1) \<Rightarrow> (True, w1)
      | (Inl (ClientError code m), w1) \<Rightarrow>
          if use_localstack ld \<and> code = ''404''
          then (case create_bucket w1 of
                  (Inr u, w2) \<Rightarrow> (True, w2)
                | (Inl e, w2) \<Rightarrow> (False, w2))
          else (False, w1)
      | (Inl e, w1) \<Rightarrow> (False, w1))"

section \<open>Pipeline\<close>

record pipeline =
  extractor :: bq_extractor
  loader :: s3_loader

definition Pipeline :: "string \<Rightarrow> string \<Rightarrow> string \<Rightarrow> string \<Rightarrow> bool \<Rightarrow> pipeline" where
  "Pipeline s3_bucket gcp_project_id ga4_dataset_id s3_prefix localstack =
     \<lparr>extractor = \<lparr>project_id = gcp_project_id, dataset_id = ga4_dataset_id\<rparr>,
      loader = S3Loader s3_bucket s3_prefix localstack\<rparr>"

subsection \<open>run_daily\<close>

record daily_result =
  date :: string
  success :: bool
  records_extracted :: nat
  s3_key :: "string option"
  error :: "string option"
  skipped :: bool

text \<open>
  The \<open>try\<close> block of \<open>run_daily\<close>. It returns the result dictionary as the block left
  it, and the exception that ended the block, if one did.
\<close>

definition run_daily_try ::
  "pipeline \<Rightarrow> world \<Rightarrow> string \<Rightarrow> bool \<Rightarrow> daily_result \<Rightarrow> daily_result \<times> exn option \<times> world" where
  "run_daily_try p w d skip_existing result =
     (case (if skip_existing then check_exists (loader p) w d ''events'' else (Inr False, w)) of
        (Inl e, w1) \<Rightarrow> (result, Some e, w1)
      | (Inr True, w1) \<Rightarrow> (result\<lparr>skipped := True, success := True\<rparr>, None, w1)
      | (Inr False, w1) \<Rightarrow>
          (case extract_events (extractor p) w1 d of
             (Inl e, w2) \<Rightarrow> (result, Some e, w2)
           | (Inr df, w2) \<Rightarrow>
               if df_empty df then (result\<lparr>error := Some ''No data found''\<rparr>, None, w2)
               else
                 (let result1 = result\<lparr>records_extracted := nrows df\<rparr>
                  in case upload_events (loader p) w2 df d ''events'' of
                       (Inl e, w3) \<Rightarrow> (result1, Some e, w3)
                     | (Inr key, w3) \<Rightarrow> (result1\<lparr>s3_key := key, success := True\<rparr>, None, w3))))"

text \<open>
  \<open>run_daily\<close>: the default date is yesterday by the clock, computed before the
  \<open>try\<close>; \<open>except Exception\<close> stores \<open>str(e)\<close> in the result.
\<close>

definition run_daily ::
  "pipeline \<Rightarrow> world \<Rightarrow> string option \<Rightarrow> bool \<Rightarrow> (exn + daily_result) \<times> world" where
  "run_daily p w date_arg skip_existing =
     (case (case date_arg of
              None \<Rightarrow> map_sum id strftime_ymd (add_days (today w) (- 1))
            | Some d \<Rightarrow> Inr d) of
        Inl e \<Rightarrow> (Inl e, w)
      | Inr d \<Rightarrow>
          (let result = \<lparr>date = d, success = False, records_extracted = 0, s3_key = None,
                         error = None, skipped = False\<rparr>
           in case run_daily_try p w d skip_existing result of
                (result', None, w') \<Rightarrow> (Inr result', w')
              | (result', Some e, w') \<Rightarrow> (Inr (result'\<lparr>error := Some (str e)\<rparr>), w')))"

subsection \<open>backfill\<close>

record backfill_results =
  start_date :: string
  end_date :: string
  total_days :: int
  successful_days :: "string list"
  failed_days :: "(string \<times> string option) list"
  skipped_days :: "string list"
  total_records :: nat

text \<open>The body of the \<open>try\<close> inside the loop and its handler: one day is filed.\<close>

definition record_day ::
  "backfill_results \<Rightarrow> string \<Rightarrow> exn + daily_result \<Rightarrow> backfill_results" where
  "record_day results date_str r =
     (case r of
        Inr day_result \<Rightarrow>
          if success day_result then
            (if skipped day_result
             then results\<lparr>skipped_days := skipped_days results @ [date_str]\<rparr>
             else results\<lparr>successful_days := successful_days results @ [date_str],
                          total_records := total_records results + records_extracted day_result\<rparr>)
          else results\<lparr>failed_days := failed_days results @ [(date_str, error day_result)]\<rparr>
      | Inl e \<Rightarrow> results\<lparr>failed_days := failed_days results @ [(date_str, Some (str e))]\<rparr>)"

text \<open>
  The \<open>while current_date <= end\<close> loop. \<open>current_date += timedelta(days=1)\<close> stands
  outside the inner \<open>try\<close>: its OverflowError ends \<open>backfill\<close>.
\<close>

function backfill_loop ::
  "pipeline \<Rightarrow> bool \<Rightarrow> datetime \<Rightarrow> datetime \<Rightarrow> backfill_results \<Rightarrow> world
   \<Rightarrow> (exn + backfill_results) \<times> world" where
  "backfill_loop p skip_existing current_date end_dt results w =
     (if current_date \<le> end_dt then
        (let date_str = strftime_ymd current_date
         in case run_daily p w (Some date_str) skip_existing of
              (r, w1) \<Rightarrow>
                (case add_days current_date 1 of
                   Inl e \<Rightarrow> (Inl e, w1)
                 | Inr next_date \<Rightarrow>
                     backfill_loop p skip_existing next_date end_dt
                       (record_day results date_str r) w1))
      else (Inr results, w))"
  by pat_completeness auto
termination
  by (relation "measure (\<lambda>(p, skip_existing, current_date, end_dt, results, w).
                           nat (end_dt + 1 - current_date))")
     (auto simp: add_days_def split: if_splits)

declare backfill_loop.simps [simp del]

definition backfill ::
  "pipeline \<Rightarrow> world \<Rightarrow> string \<Rightarrow> string \<Rightarrow> bool \<Rightarrow> (exn + backfill_results) \<times> world" where
  "backfill p w start_arg end_arg skip_existing =
     (case strptime start_arg FMT_DASHED of
        Inl e \<Rightarrow> (Inl e, w)
      | Inr start \<Rightarrow>
          (case strptime end_arg FMT_DASHED of
             Inl e \<Rightarrow> (Inl e, w)
           | Inr end_dt \<Rightarrow>
               if end_dt < start then (Inl (ValueError ''start_date must be before end_date''), w)
               else backfill_loop p skip_existing start end_dt
                      \<lparr>start_date = start_arg, end_date = end_arg,
                       total_days = end_dt - start + 1,
                       successful_days = [], failed_days = [], skipped_days = [],
                       total_records = 0\<rparr> w))"

subsection \<open>test_connections and get_pipeline_status\<close>

record connectivity =
  bigquery :: bool
  s3 :: bool

text \<open>
  \<open>test_connections\<close>: both probes already turn every exception into \<open>False\<close>, so
  the two handlers here have nothing left to catch.
\<close>

definition test_connections :: "pipeline \<Rightarrow> world \<Rightarrow> connectivity \<times> world" where
  "test_connections p w =
     (case bq_test_connection (extractor p) w of
        (b, w1) \<Rightarrow>
          (case s3_test_connection (loader p) w1 of
             (s, w2) \<Rightarrow> (\<lparr>bigquery = b, s3 = s\<rparr>, w2)))"

record status_report =
  connections :: connectivity
  bigquery_available_dates :: "string list"
  s3_available_dates :: "string list"
  missing_dates :: "string list"

text \<open>
  \<open>get_pipeline_status\<close>: one \<open>try\<close> around both listings and the difference; its
  handler only logs.
\<close>

definition get_pipeline_status :: "pipeline \<Rightarrow> world \<Rightarrow> status_report \<times> world" where
  "get_pipeline_status p w =
     (case test_connections p w of
        (c, w1) \<Rightarrow>
          (let status = \<lparr>connections = c, bigquery_available_dates = [],
                         s3_available_dates = [], missing_dates = []\<rparr>
           in case get_available_dates (extractor p) w1 30 of
                (Inl e, w2) \<Rightarrow> (status, w2)
              | (Inr bq_dates, w2) \<Rightarrow>
                  (case list_available_dates (loader p) w2 ''events'' 30 of
                     (s3_dates, w3) \<Rightarrow>
                       (status\<lparr>bigquery_available_dates := bq_dates,
                               s3_available_dates := s3_dates,
                               missing_dates := filter (\<lambda>d. d \<notin> set s3_dates) bq_dates\<rparr>, w3))))"

section \<open>Notions the properties are stated with\<close>

text \<open>
  The three outcome variants of a daily result: uploaded (success, not skipped, key set),
  skipped (success, skipped) and failed (no success, error set).
\<close>

definition outcome_variants :: "daily_result \<Rightarrow> bool list" where
  "outcome_variants r =
     [success r \<and> \<not> skipped r \<and> s3_key r \<noteq> None,
      success r \<and> skipped r,
      \<not> success r \<and> error r \<noteq> None]"

text \<open>
  The result of a day that ended without success: \<open>records\<close> rows were extracted
  before the run ended, \<open>msg\<close> is the error text.
\<close>

definition failed_result :: "string \<Rightarrow> nat \<Rightarrow> string \<Rightarrow> daily_result" where
  "failed_result d records msg =
     \<lparr>date = d, success = False, records_extracted = records, s3_key = None,
      error = Some msg, skipped = False\<rparr>"

definition skipped_result :: "string \<Rightarrow> daily_result" where
  "skipped_result d =
     \<lparr>date = d, success = True, records_extracted = 0, s3_key = None,
      error = None, skipped = True\<rparr>"

definition uploaded_result :: "string \<Rightarrow> nat \<Rightarrow> string option \<Rightarrow> daily_result" where
  "uploaded_result d records key =
     \<lparr>date = d, success = True, records_extracted = records, s3_key = key,
      error = None, skipped = False\<rparr>"

text \<open>The remote calls made between two worlds of one run.\<close>

definition new_calls :: "world \<Rightarrow> world \<Rightarrow> api_call list" where
  "new_calls w w' = drop (length (trace w)) (trace w')"

fun is_put :: "api_call \<Rightarrow> bool" where
  "is_put (PutObject k) = True"
| "is_put c = False"

fun is_source_call :: "api_call \<Rightarrow> bool" where
  "is_source_call (GetTable t) = True"
| "is_source_call (RunQuery q) = True"
| "is_source_call (ListTables d) = True"
| "is_source_call (GetDataset d) = True"
| "is_source_call c = False"




definition INVALID_RANGE :: exn where
  "INVALID_RANGE = ValueError ''start_date must be before end_date''"

subsection \<open>A concrete deployment\<close>

text \<open>
  The warehouse holds the tables of 2024-01-01 to 2024-01-03, every query returns five
  rows, the bucket holds the data object of 2024-01-01, and no call fails.
\<close>

definition example_pipeline :: pipeline where
  "example_pipeline = Pipeline ''bucket'' ''proj'' ''ds'' ''bronze/ga4/'' False"

definition example_world :: world where
  "example_world =
     \<lparr>s3_bucket_exists = True,
      s3_objects = [''bronze/ga4/events/year=2024/month=01/day=01/data.parquet''],
      bq_dataset = ''proj.ds'',
      bq_tables = [''events_20240101'', ''events_20240102'', ''events_20240103''],
      query_result = (\<lambda>q. \<lparr>nrows = 5, columns = [''event_name'']\<rparr>),
      queries_dir = ''config/queries'',
      query_files = (\<lambda>n. if n = ''extract_events'' then Some (Inr ''SELECT'') else None),
      format_query = (\<lambda>t n d. Inr (t @ '' '' @ n @ '' '' @ d)),
      to_parquet = (\<lambda>df. Inr 100),
      today = 738900,
      faults = (\<lambda>n. None),
      trace = []\<rparr>"

text \<open>The same world with call number \<open>n\<close> raising \<open>e\<close>.\<close>

definition failing_at :: "nat \<Rightarrow> exn \<Rightarrow> world \<Rightarrow> world" where
  "failing_at n e w = w\<lparr>faults := (\<lambda>k. if k = n then Some e else None)\<rparr>"

text \<open>
  A deployment whose configured prefix itself holds a \<open>year=\<close> and a \<open>month=\<close>
  part, with one object a level below the data-type prefix.
\<close>

definition nested_pipeline :: pipeline where
  "nested_pipeline = Pipeline ''bucket'' ''proj'' ''ds'' ''year=2024/month=01'' False"

definition nested_world :: world where
  "nested_world = example_world\<lparr>s3_objects := [''year=2024/month=01/events/day=02/data.parquet'']\<rparr>"

section \<open>The daily run\<close>

lemma upload_events_key:
  assumes "upload_events ld w df d t = (Inr k, w')" "\<not> df_empty df"
  shows "k \<noteq> None"
proof (cases "partition_key ld t d")
  case (Inl e)
  with assms show ?thesis by (simp add: upload_events_def)
next
  case key: (Inr key)
  show ?thesis
  proof (cases "to_parquet w df")
    case (Inl e)
    with assms key show ?thesis by (simp add: upload_events_def)
  next
    case pq: (Inr n)
    obtain x w1 where po: "put_object w key = (x, w1)" by (cases "put_object w key")
    show ?thesis
    proof (cases x)
      case (Inl e)
      with assms key pq po show ?thesis by (simp add: upload_events_def)
    next
      case (Inr u)
      with assms key pq po show ?thesis by (auto simp add: upload_events_def)
    qed
  qed
qed

text \<open>The six ways through \<open>run_daily\<close>, one equation each.\<close>

lemma run_daily_check_raises:
  assumes "(if sk then check_exists (loader p) w d ''events'' else (Inr False, w)) = (Inl e, w1)"
  shows "run_daily p w (Some d) sk = (Inr (failed_result d 0 (str e)), w1)"
  using assms by (simp add: run_daily_def run_daily_try_def failed_result_def)

lemma run_daily_skips:
  assumes "(if sk then check_exists (loader p) w d ''events'' else (Inr False, w)) = (Inr True, w1)"
  shows "run_daily p w (Some d) sk = (Inr (skipped_result d), w1)"
  using assms by (simp add: run_daily_def run_daily_try_def skipped_result_def)

lemma run_daily_extract_raises:
  assumes "(if sk then check_exists (loader p) w d ''events'' else (Inr False, w)) = (Inr False, w1)"
    and "extract_events (extractor p) w1 d = (Inl e, w2)"
  shows "run_daily p w (Some d) sk = (Inr (failed_result d 0 (str e)), w2)"
  using assms by (simp add: run_daily_def run_daily_try_def failed_result_def)

lemma run_daily_no_data:
  assumes "(if sk then check_exists (loader p) w d ''events'' else (Inr False, w)) = (Inr False, w1)"
    and "extract_events (extractor p) w1 d = (Inr df, w2)"
    and "df_empty df"
  shows "run_daily p w (Some d) sk = (Inr (failed_result d 0 ''No data found''), w2)"
  using assms by (simp add: run_daily_def run_daily_try_def failed_result_def)

lemma run_daily_upload_raises:
  assumes "(if sk then check_exists (loader p) w d ''events'' else (Inr False, w)) = (Inr False, w1)"
    and "extract_events (extractor p) w1 d = (Inr df, w2)"
    and "\<not> df_empty df"
    and "upload_events (loader p) w2 df d ''events'' = (Inl e, w3)"
  shows "run_daily p w (Some d) sk = (Inr (failed_result d (nrows df) (str e)), w3)"
  using assms by (simp add: run_daily_def run_daily_try_def failed_result_def)

lemma run_daily_uploads:
  assumes "(if sk then check_exists (loader p) w d ''events'' else (Inr False, w)) = (Inr False, w1)"
    and "extract_events (extractor p) w1 d = (Inr df, w2)"
    and "\<not> df_empty df"
    and "upload_events (loader p) w2 df d ''events'' = (Inr key, w3)"
  shows "run_daily p w (Some d) sk = (Inr (uploaded_result d (nrows df) key), w3)"
  using assms by (simp add: run_daily_def run_daily_try_def uploaded_result_def)

lemma variants_failed: "length (filter id (outcome_variants (failed_result d n m))) = 1"
  by (simp add: outcome_variants_def failed_result_def)

lemma variants_skipped: "length (filter id (outcome_variants (skipped_result d))) = 1"
  by (simp add: outcome_variants_def skipped_result_def)

lemma variants_uploaded:
  "key \<noteq> None \<Longrightarrow> length (filter id (outcome_variants (uploaded_result d n key))) = 1"
  by (cases key) (simp_all add: outcome_variants_def uploaded_result_def)

lemma one_variantI:
  assumes "run_daily p w (Some d) sk = (Inr r, w')"
    and "length (filter id (outcome_variants r)) = 1"
  shows "\<exists>r w'. run_daily p w (Some d) sk = (Inr r, w') \<and> length (filter id (outcome_variants r)) = 1"
  using assms by blast

text \<open>
  Claim C3. For every date and every behaviour of source and sink, faults included,
  \<open>run_daily\<close> returns a result (it does not raise), and exactly one of the three
  outcome variants holds of it: uploaded with the key set, skipped, or failed with an
  error text.
\<close>

theorem run_daily_exactly_one_variant:
  "\<exists>r w'. run_daily p w (Some d) sk = (Inr r, w') \<and> length (filter id (outcome_variants r)) = 1"
proof -
  obtain c w1 where c:
    "(if sk then check_exists (loader p) w d ''events'' else (Inr False, w)) = (c, w1)"
    by (cases "if sk then check_exists (loader p) w d ''events'' else (Inr False, w)")
  obtain x w2 where x: "extract_events (extractor p) w1 d = (x, w2)"
    by (cases "extract_events (extractor p) w1 d")
  show ?thesis
  proof (cases c)
    case (Inl e)
    with c have h: "(if sk then check_exists (loader p) w d ''events'' else (Inr False, w)) = (Inl e, w1)"
      by simp
    show ?thesis
      by (rule one_variantI [OF run_daily_check_raises [OF h] variants_failed])
  next
    case (Inr b)
    show ?thesis
    proof (cases b)
      case True
      with c Inr have h: "(if sk then check_exists (loader p) w d ''events'' else (Inr False, w)) = (Inr True, w1)"
        by simp
      show ?thesis
        by (rule one_variantI [OF run_daily_skips [OF h] variants_skipped])
    next
      case False
      with c Inr have h: "(if sk then check_exists (loader p) w d ''events'' else (Inr False, w)) = (Inr False, w1)"
        by simp
      show ?thesis
      proof (cases x)
        case (Inl e)
        with x have hx: "extract_events (extractor p) w1 d = (Inl e, w2)" by simp
        show ?thesis
          by (rule one_variantI [OF run_daily_extract_raises [OF h hx] variants_failed])
      next
        case df: (Inr df)
        with x have hx: "extract_events (extractor p) w1 d = (Inr df, w2)" by simp
        obtain u w3 where u: "upload_events (loader p) w2 df d ''events'' = (u, w3)"
          by (cases "upload_events (loader p) w2 df d ''events''")
        show ?thesis
        proof (cases "df_empty df")
          case True
          show ?thesis
            by (rule one_variantI [OF run_daily_no_data [OF h hx True] variants_failed])
        next
          case nonempty: False
          show ?thesis
          proof (cases u)
            case (Inl e)
            with u have hu: "upload_events (loader p) w2 df d ''events'' = (Inl e, w3)" by simp
            show ?thesis
              by (rule one_variantI [OF run_daily_upload_raises [OF h hx nonempty hu] variants_failed])
          next
            case key: (Inr key)
            with u have hu: "upload_events (loader p) w2 df d ''events'' = (Inr key, w3)" by simp
            have "key \<noteq> None"
              by (rule upload_events_key [OF hu nonempty])
            then show ?thesis
              by (rule one_variantI [OF run_daily_uploads [OF h hx nonempty hu] variants_uploaded])
          qed
        qed
      qed
    qed
  qed
qed

section \<open>Unparseable dates\<close>

lemma strptime_error:
  assumes "strptime s f = Inl x"
  shows "\<exists>m. x = ValueError m \<and> ValueError m \<noteq> INVALID_RANGE"
proof (cases "match_format f s")
  case None
  with assms show ?thesis by (auto simp: strptime_def INVALID_RANGE_def)
next
  case (Some fr)
  obtain found rest where fr: "fr = (found, rest)" by (cases fr)
  show ?thesis
  proof (cases "rest = []")
    case False
    with assms Some fr show ?thesis by (auto simp: strptime_def INVALID_RANGE_def)
  next
    case True
    with assms Some fr show ?thesis
      by (auto simp: strptime_def INVALID_RANGE_def Let_def split: if_splits)
  qed
qed

text \<open>
  Claim C10. If the start date or the end date does not parse as \<open>%Y-%m-%d\<close>,
  \<open>backfill\<close> raises the ValueError of \<open>strptime\<close>, which is not the range error;
  the world is returned as it was (no source or sink call, nothing written) and no report
  is produced.
\<close>

theorem backfill_unparseable:
  assumes "isl (strptime s FMT_DASHED) \<or> isl (strptime e FMT_DASHED)"
  shows "\<exists>m. backfill p w s e sk = (Inl (ValueError m), w) \<and> ValueError m \<noteq> INVALID_RANGE"
proof (cases "strptime s FMT_DASHED")
  case (Inl x)
  from strptime_error [OF Inl] obtain m where "x = ValueError m" "ValueError m \<noteq> INVALID_RANGE"
    by blast
  with Inl show ?thesis by (simp add: backfill_def)
next
  case a: (Inr a)
  with assms obtain x where x: "strptime e FMT_DASHED = Inl x"
    by (cases "strptime e FMT_DASHED") auto
  from strptime_error [OF x] obtain m where "x = ValueError m" "ValueError m \<noteq> INVALID_RANGE"
    by blast
  with a x show ?thesis by (simp add: backfill_def)
qed

lemma strptime_month_13:
  "strptime ''2024-13-01'' FMT_DASHED = Inl (ValueError ''time data does not match format'')"
  by (simp add: strptime_def FMT_DASHED_def is_digit_def nonzero_digit_def)

theorem backfill_unparseable_witness:
  "isl (strptime ''2024-13-01'' FMT_DASHED)
   \<and> (\<exists>m. backfill example_pipeline example_world ''2024-13-01'' ''2024-01-04'' True
            = (Inl (ValueError m), example_world)
          \<and> ValueError m \<noteq> INVALID_RANGE)"
proof -
  have h1: "isl (strptime ''2024-13-01'' FMT_DASHED)"
    by (simp add: strptime_month_13)
  then have h: "isl (strptime ''2024-13-01'' FMT_DASHED) \<or> isl (strptime ''2024-01-04'' FMT_DASHED)"
    by (rule disjI1)
  from h1 backfill_unparseable [OF h, of example_pipeline example_world True]
  show ?thesis by (rule conjI)
qed

section \<open>Evaluating the concrete deployment\<close>

lemmas world_ops = remote_def head_object_def put_object_def list_objects_v2_def head_bucket_def
  create_bucket_def get_table_def run_query_def list_tables_def get_dataset_def

lemma example_loader:
  "loader example_pipeline = \<lparr>bucket_name = ''bucket'', prefix = ''bronze/ga4'', use_localstack = False\<rparr>"
  by (simp add: example_pipeline_def Pipeline_def S3Loader_def rstrip_def)

lemma example_extractor:
  "extractor example_pipeline = \<lparr>project_id = ''proj'', dataset_id = ''ds''\<rparr>"
  by (simp add: example_pipeline_def Pipeline_def)

section \<open>Listing the dates of the bucket\<close>

lemma common_prefixes_one_partition:
  "common_prefixes ''bronze/ga4/events/'' CHR ''/''
     [''bronze/ga4/events/year=2024/month=01/day=15/data.parquet'']
   = [''bronze/ga4/events/year=2024/'']"
  by (simp add: common_prefixes_def rollup_def)

lemma date_of_year_prefix: "date_of_prefix ''bronze/ga4/events/year=2024/'' = []"
  by (simp add: date_of_prefix_def rstrip_def)

text \<open>
  Claim C9 fails on the code. The bucket holds the data object of the day partition
  2024-01-15 under the data-type prefix \<open>bronze/ga4/events/\<close>. The one
  \<open>list_objects_v2\<close> call with delimiter \<open>/\<close> returns the common prefix
  \<open>bronze/ga4/events/year=2024/\<close> only, which has no \<open>month=\<close> part, so the
  date is dropped and the listing is empty.
\<close>

theorem list_available_dates_misses_partition:
  "fst (list_available_dates (loader example_pipeline)
          (example_world\<lparr>s3_objects :=
             [''bronze/ga4/events/year=2024/month=01/day=15/data.parquet'']\<rparr>) ''events'' 30) = []"
  by (simp add: list_available_dates_def example_loader list_objects_v2_def remote_def
      example_world_def common_prefixes_one_partition date_of_year_prefix sorted_reverse_def)

section \<open>Which calls a step makes\<close>

lemma head_object_trace: "head_object w k = (x, w') \<Longrightarrow> trace w' = trace w @ [HeadObject k]"
  by (auto simp: head_object_def remote_def split: option.splits if_splits)

lemma get_table_trace: "get_table w n = (x, w') \<Longrightarrow> trace w' = trace w @ [GetTable n]"
  by (auto simp: get_table_def remote_def split: option.splits if_splits)

lemma run_query_trace: "run_query w q = (x, w') \<Longrightarrow> trace w' = trace w @ [RunQuery q]"
  by (auto simp: run_query_def remote_def split: option.splits)

lemma check_exists_calls:
  assumes "check_exists ld w d t = (c, w1)"
  shows "\<exists>cs. trace w1 = trace w @ cs \<and> filter is_put cs = [] \<and> filter is_source_call cs = []"
proof (cases "partition_key ld t d")
  case (Inl e)
  with assms show ?thesis by (simp add: check_exists_def)
next
  case (Inr k)
  obtain x w' where h: "head_object w k = (x, w')" by (cases "head_object w k")
  have "w1 = w'"
    using assms Inr h by (auto simp: check_exists_def split: sum.splits exn.splits if_splits)
  with head_object_trace [OF h] show ?thesis by simp
qed

lemma skip_check_calls:
  assumes "(if sk then check_exists ld w d t else (Inr False, w)) = (c, w1)"
  shows "\<exists>cs. trace w1 = trace w @ cs \<and> filter is_put cs = [] \<and> filter is_source_call cs = []"
proof (cases sk)
  case True
  with assms show ?thesis using check_exists_calls by simp
next
  case False
  with assms show ?thesis by simp
qed

lemma table_exists_trace: "table_exists w n = (x, w') \<Longrightarrow> trace w' = trace w @ [GetTable n]"
proof -
  assume a: "table_exists w n = (x, w')"
  obtain y w2 where g: "get_table w n = (y, w2)" by (cases "get_table w n")
  have "w' = w2"
    using a g by (auto simp: table_exists_def split: sum.splits exn.splits)
  with get_table_trace [OF g] show ?thesis by simp
qed

lemma extract_events_calls:
  assumes "extract_events ex w d = (x, w2)"
  shows "\<exists>cs. trace w2 = trace w @ cs \<and> filter is_put cs = []"
proof -
  let ?n = "project_id ex @ ''.'' @ dataset_id ex @ ''.events_'' @ replace ''-'' [] d"
  obtain y w1 where t: "table_exists w ?n = (y, w1)" by (cases "table_exists w ?n")
  note tr = table_exists_trace [OF t]
  show ?thesis
  proof (cases y)
    case (Inl e)
    with assms t have "w2 = w1" by (simp add: extract_events_def Let_def)
    with tr show ?thesis by simp
  next
    case (Inr b)
    show ?thesis
    proof (cases b)
      case False
      with assms t Inr have "w2 = w1" by (simp add: extract_events_def Let_def)
      with tr show ?thesis by simp
    next
      case True
      show ?thesis
      proof (cases "build_events_query w1 ?n d")
        case (Inl e)
        with assms t Inr True have "w2 = w1" by (simp add: extract_events_def Let_def)
        with tr show ?thesis by simp
      next
        case q: (Inr q)
        with assms t Inr True have "run_query w1 q = (x, w2)" by (simp add: extract_events_def Let_def)
        from run_query_trace [OF this] tr show ?thesis by simp
      qed
    qed
  qed
qed

lemma new_calls_append: "trace w' = trace w @ cs \<Longrightarrow> new_calls w w' = cs"
  by (simp add: new_calls_def)

section \<open>No data and source errors\<close>

text \<open>
  Claim C4, amended. When the run reaches the extraction (the skip check did not end it):
  an empty extraction result gives the failed result with the text \<open>No data found\<close>
  and no \<open>put_object\<close> call is made; a raised source error \<open>e\<close> gives the
  failed result with the text \<open>str(e)\<close>. Either way \<open>run_daily\<close> returns. The
  two results differ exactly when \<open>str(e)\<close> is not itself \<open>No data found\<close>: the
  result dictionary has no other field that tells them apart.
\<close>

theorem run_daily_no_data_or_source_error:
  assumes "(if sk then check_exists (loader p) w d ''events'' else (Inr False, w)) = (Inr False, w1)"
    and "extract_events (extractor p) w1 d = (x, w2)"
  shows "(\<forall>df. x = Inr df \<and> df_empty df \<longrightarrow>
            run_daily p w (Some d) sk = (Inr (failed_result d 0 ''No data found''), w2)
            \<and> filter is_put (new_calls w w2) = [])
       \<and> (\<forall>e. x = Inl e \<longrightarrow>
            run_daily p w (Some d) sk = (Inr (failed_result d 0 (str e)), w2)
            \<and> (failed_result d 0 (str e) \<noteq> failed_result d 0 ''No data found'')
                = (str e \<noteq> ''No data found''))"
proof (intro conjI allI impI)
  fix df assume a: "x = Inr df \<and> df_empty df"
  with assms(2) have hx: "extract_events (extractor p) w1 d = (Inr df, w2)" by simp
  from a have em: "df_empty df" by simp
  show "run_daily p w (Some d) sk = (Inr (failed_result d 0 ''No data found''), w2)"
    by (rule run_daily_no_data [OF assms(1) hx em])
  from skip_check_calls [OF assms(1)] obtain cs1 where
    c1: "trace w1 = trace w @ cs1" "filter is_put cs1 = []" by blast
  from extract_events_calls [OF hx] obtain cs2 where
    c2: "trace w2 = trace w1 @ cs2" "filter is_put cs2 = []" by blast
  from c1 c2 have "trace w2 = trace w @ (cs1 @ cs2)" by simp
  from new_calls_append [OF this] c1 c2
  show "filter is_put (new_calls w w2) = []" by simp
next
  fix e assume a: "x = Inl e"
  with assms(2) have hx: "extract_events (extractor p) w1 d = (Inl e, w2)" by simp
  show "run_daily p w (Some d) sk = (Inr (failed_result d 0 (str e)), w2)"
    by (rule run_daily_extract_raises [OF assms(1) hx])
  show "(failed_result d 0 (str e) \<noteq> failed_result d 0 ''No data found'')
          = (str e \<noteq> ''No data found'')"
    by (simp add: failed_result_def)
qed

lemma example_check_0104:
  "(if True then check_exists (loader example_pipeline) example_world ''2024-01-04'' ''events''
    else (Inr False, example_world))
   = (Inr False, example_world\<lparr>trace :=
        [HeadObject ''bronze/ga4/events/year=2024/month=01/day=04/data.parquet'']\<rparr>)"
  by (simp add: example_loader check_exists_def partition_key_def world_ops example_world_def)

lemma example_extract_0104:
  "extract_events (extractor example_pipeline)
     (example_world\<lparr>trace :=
        [HeadObject ''bronze/ga4/events/year=2024/month=01/day=04/data.parquet'']\<rparr>) ''2024-01-04''
   = (Inr DataFrame, example_world\<lparr>trace :=
        [HeadObject ''bronze/ga4/events/year=2024/month=01/day=04/data.parquet'',
         GetTable ''proj.ds.events_20240104'']\<rparr>)"
  by (simp add: example_extractor extract_events_def table_exists_def world_ops example_world_def
      replace.simps)

lemma failing_check_0102:
  "(if True then check_exists (loader example_pipeline)
                   (failing_at 1 (OtherException ''boom'') example_world) ''2024-01-02'' ''events''
    else (Inr False, failing_at 1 (OtherException ''boom'') example_world))
   = (Inr False, (failing_at 1 (OtherException ''boom'') example_world)\<lparr>trace :=
        [HeadObject ''bronze/ga4/events/year=2024/month=01/day=02/data.parquet'']\<rparr>)"
  by (simp add: example_loader check_exists_def partition_key_def world_ops example_world_def
      failing_at_def)

lemma failing_extract_0102:
  "extract_events (extractor example_pipeline)
     ((failing_at 1 (OtherException ''boom'') example_world)\<lparr>trace :=
        [HeadObject ''bronze/ga4/events/year=2024/month=01/day=02/data.parquet'']\<rparr>) ''2024-01-02''
   = (Inl (OtherException ''boom''),
      (failing_at 1 (OtherException ''boom'') example_world)\<lparr>trace :=
        [HeadObject ''bronze/ga4/events/year=2024/month=01/day=02/data.parquet'',
         GetTable ''proj.ds.events_20240102'']\<rparr>)"
  by (simp add: example_extractor extract_events_def table_exists_def world_ops example_world_def
      failing_at_def replace.simps)

theorem run_daily_no_data_or_source_error_witness:
  "fst (run_daily example_pipeline example_world (Some ''2024-01-04'') True)
     = Inr (failed_result ''2024-01-04'' 0 ''No data found'')
   \<and> fst (run_daily example_pipeline (failing_at 1 (OtherException ''boom'') example_world)
            (Some ''2024-01-02'') True)
     = Inr (failed_result ''2024-01-02'' 0 ''boom'')"
proof
  have "df_empty DataFrame" by (simp add: df_empty_def DataFrame_def)
  with run_daily_no_data_or_source_error [OF example_check_0104 example_extract_0104]
  show "fst (run_daily example_pipeline example_world (Some ''2024-01-04'') True)
          = Inr (failed_result ''2024-01-04'' 0 ''No data found'')"
    by simp
next
  from run_daily_no_data_or_source_error [OF failing_check_0102 failing_extract_0102]
  show "fst (run_daily example_pipeline (failing_at 1 (OtherException ''boom'') example_world)
               (Some ''2024-01-02'') True)
          = Inr (failed_result ''2024-01-02'' 0 ''boom'')"
    by simp
qed

text \<open>
  Claim C4 as stated fails: a source error whose message is \<open>No data found\<close> leaves
  the same result as an empty extraction.
\<close>

theorem no_data_indistinguishable_counterexample:
  "fst (extract_events (extractor example_pipeline)
          (failing_at 0 (OtherException ''No data found'') example_world) ''2024-01-04'')
     = Inl (OtherException ''No data found'')
   \<and> fst (extract_events (extractor example_pipeline) example_world ''2024-01-04'') = Inr DataFrame
   \<and> fst (run_daily example_pipeline (failing_at 0 (OtherException ''No data found'') example_world)
            (Some ''2024-01-04'') False)
     = fst (run_daily example_pipeline example_world (Some ''2024-01-04'') False)"
  by (simp add: example_extractor example_loader extract_events_def table_exists_def world_ops
      example_world_def failing_at_def replace.simps run_daily_def run_daily_try_def
      df_empty_def DataFrame_def)

section \<open>Upload and metadata\<close>

lemma upload_events_metadata_fails:
  assumes "\<not> df_empty df" "partition_key ld t d = Inr key" "to_parquet w df = Inr n"
    and "put_object w key = (Inr (), w3)"
    and "put_object w3 (replace ''/data.parquet'' ''/metadata.json'' key) = (x, w4)"
  shows "upload_events ld w df d t = (Inr (Some key), w4)"
  using assms by (cases x) (simp_all add: upload_events_def upload_metadata_def)

lemma upload_events_data_fails:
  assumes "\<not> df_empty df" "partition_key ld t d = Inr key" "to_parquet w df = Inr n"
    and "put_object w key = (Inl e, w3)"
  shows "upload_events ld w df d t = (Inl e, w3)"
  using assms by (simp add: upload_events_def)

lemma upload_events_parquet_fails:
  assumes "\<not> df_empty df" "partition_key ld t d = Inr key" "to_parquet w df = Inl e"
  shows "upload_events ld w df d t = (Inl e, w)"
  using assms by (simp add: upload_events_def)

text \<open>
  Claim C7. The run has reached the upload of a non-empty frame. If the data object is
  written and the write of the metadata object raises, \<open>run_daily\<close> still returns success
  with the key of the data object and the extracted row count; if the write of the data
  object raises (or the conversion to parquet before it), \<open>run_daily\<close> returns the
  failed result with that error's text.
\<close>

theorem run_daily_metadata_failure_swallowed:
  assumes "(if sk then check_exists (loader p) w d ''events'' else (Inr False, w)) = (Inr False, w1)"
    and "extract_events (extractor p) w1 d = (Inr df, w2)"
    and "\<not> df_empty df"
    and "partition_key (loader p) ''events'' d = Inr key"
  shows "(\<forall>n w3 e w4.
            to_parquet w2 df = Inr n \<and> put_object w2 key = (Inr (), w3)
            \<and> put_object w3 (replace ''/data.parquet'' ''/metadata.json'' key) = (Inl e, w4)
            \<longrightarrow> run_daily p w (Some d) sk = (Inr (uploaded_result d (nrows df) (Some key)), w4))
       \<and> (\<forall>n e w3.
            to_parquet w2 df = Inr n \<and> put_object w2 key = (Inl e, w3)
            \<longrightarrow> run_daily p w (Some d) sk = (Inr (failed_result d (nrows df) (str e)), w3))
       \<and> (\<forall>e. to_parquet w2 df = Inl e
            \<longrightarrow> run_daily p w (Some d) sk = (Inr (failed_result d (nrows df) (str e)), w2))"
proof (intro conjI allI impI)
  fix n w3 e w4
  assume a: "to_parquet w2 df = Inr n \<and> put_object w2 key = (Inr (), w3)
             \<and> put_object w3 (replace ''/data.parquet'' ''/metadata.json'' key) = (Inl e, w4)"
  then have "upload_events (loader p) w2 df d ''events'' = (Inr (Some key), w4)"
    using upload_events_metadata_fails [OF assms(3) assms(4)] by blast
  then show "run_daily p w (Some d) sk = (Inr (uploaded_result d (nrows df) (Some key)), w4)"
    by (rule run_daily_uploads [OF assms(1) assms(2) assms(3)])
next
  fix n e w3
  assume a: "to_parquet w2 df = Inr n \<and> put_object w2 key = (Inl e, w3)"
  then have "upload_events (loader p) w2 df d ''events'' = (Inl e, w3)"
    using upload_events_data_fails [OF assms(3) assms(4)] by blast
  then show "run_daily p w (Some d) sk = (Inr (failed_result d (nrows df) (str e)), w3)"
    by (rule run_daily_upload_raises [OF assms(1) assms(2) assms(3)])
next
  fix e
  assume a: "to_parquet w2 df = Inl e"
  have "upload_events (loader p) w2 df d ''events'' = (Inl e, w2)"
    by (rule upload_events_parquet_fails [OF assms(3) assms(4) a])
  then show "run_daily p w (Some d) sk = (Inr (failed_result d (nrows df) (str e)), w2)"
    by (rule run_daily_upload_raises [OF assms(1) assms(2) assms(3)])
qed

lemma check_0102_fault3:
  "(if True then check_exists (loader example_pipeline) (failing_at 3 (OtherException ''boom'') example_world) ''2024-01-02'' ''events''
    else (Inr False, failing_at 3 (OtherException ''boom'') example_world))
   = (Inr False, (failing_at 3 (OtherException ''boom'') example_world)\<lparr>trace := [HeadObject ''bronze/ga4/events/year=2024/month=01/day=02/data.parquet'']\<rparr>)"
  by (simp add: example_loader check_exists_def partition_key_def world_ops example_world_def
      failing_at_def)

lemma extract_0102_fault3:
  "extract_events (extractor example_pipeline) ((failing_at 3 (OtherException ''boom'') example_world)\<lparr>trace := [HeadObject ''bronze/ga4/events/year=2024/month=01/day=02/data.parquet'']\<rparr>) ''2024-01-02''
   = (Inr \<lparr>nrows = 5, columns = [''event_name'']\<rparr>, (failing_at 3 (OtherException ''boom'') example_world)\<lparr>trace := [HeadObject ''bronze/ga4/events/year=2024/month=01/day=02/data.parquet'', GetTable ''proj.ds.events_20240102'', RunQuery ''SELECT proj.ds.events_20240102 20240102'']\<rparr>)"
  by (simp add: example_extractor extract_events_def table_exists_def world_ops example_world_def
      failing_at_def replace.simps build_events_query_def load_query_def Let_def)

lemma check_0102_fault4:
  "(if True then check_exists (loader example_pipeline) (failing_at 4 (OtherException ''boom'') example_world) ''2024-01-02'' ''events''
    else (Inr False, failing_at 4 (OtherException ''boom'') example_world))
   = (Inr False, (failing_at 4 (OtherException ''boom'') example_world)\<lparr>trace := [HeadObject ''bronze/ga4/events/year=2024/month=01/day=02/data.parquet'']\<rparr>)"
  by (simp add: example_loader check_exists_def partition_key_def world_ops example_world_def
      failing_at_def)

lemma extract_0102_fault4:
  "extract_events (extractor example_pipeline) ((failing_at 4 (OtherException ''boom'') example_world)\<lparr>trace := [HeadObject ''bronze/ga4/events/year=2024/month=01/day=02/data.parquet'']\<rparr>) ''2024-01-02''
   = (Inr \<lparr>nrows = 5, columns = [''event_name'']\<rparr>, (failing_at 4 (OtherException ''boom'') example_world)\<lparr>trace := [HeadObject ''bronze/ga4/events/year=2024/month=01/day=02/data.parquet'', GetTable ''proj.ds.events_20240102'', RunQuery ''SELECT proj.ds.events_20240102 20240102'']\<rparr>)"
  by (simp add: example_extractor extract_events_def table_exists_def world_ops example_world_def
      failing_at_def replace.simps build_events_query_def load_query_def Let_def)

lemma key_0102:
  "partition_key (loader example_pipeline) ''events'' ''2024-01-02'' = Inr ''bronze/ga4/events/year=2024/month=01/day=02/data.parquet''"
  by (simp add: example_loader partition_key_def)

lemma put_data_fault4:
  "put_object ((failing_at 4 (OtherException ''boom'') example_world)\<lparr>trace := [HeadObject ''bronze/ga4/events/year=2024/month=01/day=02/data.parquet'', GetTable ''proj.ds.events_20240102'', RunQuery ''SELECT proj.ds.events_20240102 20240102'']\<rparr>) ''bronze/ga4/events/year=2024/month=01/day=02/data.parquet''
   = (Inr (), (failing_at 4 (OtherException ''boom'') example_world)\<lparr>trace := [HeadObject ''bronze/ga4/events/year=2024/month=01/day=02/data.parquet'', GetTable ''proj.ds.events_20240102'', RunQuery ''SELECT proj.ds.events_20240102 20240102'', PutObject ''bronze/ga4/events/year=2024/month=01/day=02/data.parquet''], s3_objects := [''bronze/ga4/events/year=2024/month=01/day=02/data.parquet'', ''bronze/ga4/events/year=2024/month=01/day=01/data.parquet'']\<rparr>)"
  by (simp add: world_ops example_world_def failing_at_def)

lemma put_metadata_fault4:
  "put_object ((failing_at 4 (OtherException ''boom'') example_world)\<lparr>trace := [HeadObject ''bronze/ga4/events/year=2024/month=01/day=02/data.parquet'', GetTable ''proj.ds.events_20240102'', RunQuery ''SELECT proj.ds.events_20240102 20240102'', PutObject ''bronze/ga4/events/year=2024/month=01/day=02/data.parquet''], s3_objects := [''bronze/ga4/events/year=2024/month=01/day=02/data.parquet'', ''bronze/ga4/events/year=2024/month=01/day=01/data.parquet'']\<rparr>)
     (replace ''/data.parquet'' ''/metadata.json'' ''bronze/ga4/events/year=2024/month=01/day=02/data.parquet'')
   = (Inl (OtherException ''boom''), (failing_at 4 (OtherException ''boom'') example_world)\<lparr>trace := [HeadObject ''bronze/ga4/events/year=2024/month=01/day=02/data.parquet'', GetTable ''proj.ds.events_20240102'', RunQuery ''SELECT proj.ds.events_20240102 20240102'', PutObject ''bronze/ga4/events/year=2024/month=01/day=02/data.parquet'', PutObject ''bronze/ga4/events/year=2024/month=01/day=02/metadata.json''], s3_objects := [''bronze/ga4/events/year=2024/month=01/day=02/data.parquet'', ''bronze/ga4/events/year=2024/month=01/day=01/data.parquet'']\<rparr>)"
  by (simp add: world_ops example_world_def failing_at_def replace.simps)

lemma put_data_fault3:
  "put_object ((failing_at 3 (OtherException ''boom'') example_world)\<lparr>trace := [HeadObject ''bronze/ga4/events/year=2024/month=01/day=02/data.parquet'', GetTable ''proj.ds.events_20240102'', RunQuery ''SELECT proj.ds.events_20240102 20240102'']\<rparr>) ''bronze/ga4/events/year=2024/month=01/day=02/data.parquet''
   = (Inl (OtherException ''boom''), (failing_at 3 (OtherException ''boom'') example_world)\<lparr>trace := [HeadObject ''bronze/ga4/events/year=2024/month=01/day=02/data.parquet'', GetTable ''proj.ds.events_20240102'', RunQuery ''SELECT proj.ds.events_20240102 20240102'', PutObject ''bronze/ga4/events/year=2024/month=01/day=02/data.parquet'']\<rparr>)"
  by (simp add: world_ops example_world_def failing_at_def)

lemma parquet_ok: "to_parquet (w\<lparr>trace := tr\<rparr>) df = to_parquet w df"
  by simp

theorem run_daily_metadata_failure_swallowed_witness:
  "fst (run_daily example_pipeline (failing_at 4 (OtherException ''boom'') example_world) (Some ''2024-01-02'') True)
     = Inr (uploaded_result ''2024-01-02'' 5 (Some ''bronze/ga4/events/year=2024/month=01/day=02/data.parquet''))
   \<and> fst (run_daily example_pipeline (failing_at 3 (OtherException ''boom'') example_world) (Some ''2024-01-02'') True)
     = Inr (failed_result ''2024-01-02'' 5 ''boom'')"
proof
  have ne: "\<not> df_empty \<lparr>nrows = 5, columns = [''event_name'']\<rparr>"
    by (simp add: df_empty_def)
  have pq: "to_parquet ((failing_at 4 (OtherException ''boom'') example_world)\<lparr>trace := [HeadObject ''bronze/ga4/events/year=2024/month=01/day=02/data.parquet'', GetTable ''proj.ds.events_20240102'', RunQuery ''SELECT proj.ds.events_20240102 20240102'']\<rparr>) \<lparr>nrows = 5, columns = [''event_name'']\<rparr> = Inr 100"
    by (simp add: example_world_def failing_at_def)
  from run_daily_metadata_failure_swallowed [OF check_0102_fault4 extract_0102_fault4 ne key_0102]
    pq put_data_fault4 put_metadata_fault4
  have "run_daily example_pipeline (failing_at 4 (OtherException ''boom'') example_world) (Some ''2024-01-02'') True
          = (Inr (uploaded_result ''2024-01-02'' (nrows \<lparr>nrows = 5, columns = [''event_name'']\<rparr>) (Some ''bronze/ga4/events/year=2024/month=01/day=02/data.parquet'')),
             (failing_at 4 (OtherException ''boom'') example_world)\<lparr>trace := [HeadObject ''bronze/ga4/events/year=2024/month=01/day=02/data.parquet'', GetTable ''proj.ds.events_20240102'', RunQuery ''SELECT proj.ds.events_20240102 20240102'', PutObject ''bronze/ga4/events/year=2024/month=01/day=02/data.parquet'', PutObject ''bronze/ga4/events/year=2024/month=01/day=02/metadata.json''], s3_objects := [''bronze/ga4/events/year=2024/month=01/day=02/data.parquet'', ''bronze/ga4/events/year=2024/month=01/day=01/data.parquet'']\<rparr>)"
    by blast
  then show "fst (run_daily example_pipeline (failing_at 4 (OtherException ''boom'') example_world) (Some ''2024-01-02'') True)
          = Inr (uploaded_result ''2024-01-02'' 5 (Some ''bronze/ga4/events/year=2024/month=01/day=02/data.parquet''))"
    by simp
next
  have ne: "\<not> df_empty \<lparr>nrows = 5, columns = [''event_name'']\<rparr>"
    by (simp add: df_empty_def)
  have pq: "to_parquet ((failing_at 3 (OtherException ''boom'') example_world)\<lparr>trace := [HeadObject ''bronze/ga4/events/year=2024/month=01/day=02/data.parquet'', GetTable ''proj.ds.events_20240102'', RunQuery ''SELECT proj.ds.events_20240102 20240102'']\<rparr>) \<lparr>nrows = 5, columns = [''event_name'']\<rparr> = Inr 100"
    by (simp add: example_world_def failing_at_def)
  from run_daily_metadata_failure_swallowed [OF check_0102_fault3 extract_0102_fault3 ne key_0102]
    pq put_data_fault3
  have "run_daily example_pipeline (failing_at 3 (OtherException ''boom'') example_world) (Some ''2024-01-02'') True
          = (Inr (failed_result ''2024-01-02'' (nrows \<lparr>nrows = 5, columns = [''event_name'']\<rparr>) (str (OtherException ''boom''))),
             (failing_at 3 (OtherException ''boom'') example_world)\<lparr>trace := [HeadObject ''bronze/ga4/events/year=2024/month=01/day=02/data.parquet'', GetTable ''proj.ds.events_20240102'', RunQuery ''SELECT proj.ds.events_20240102 20240102'', PutObject ''bronze/ga4/events/year=2024/month=01/day=02/data.parquet'']\<rparr>)"
    by blast
  then show "fst (run_daily example_pipeline (failing_at 3 (OtherException ''boom'') example_world) (Some ''2024-01-02'') True)
          = Inr (failed_result ''2024-01-02'' 5 ''boom'')"
    by simp
qed

section \<open>Running the same day twice\<close>

lemma put_object_keeps:
  "put_object w k = (x, w') \<Longrightarrow>
     s3_bucket_exists w' = s3_bucket_exists w \<and> set (s3_objects w) \<subseteq> set (s3_objects w')"
  by (auto simp: put_object_def remote_def split: option.splits if_splits)

lemma put_object_stores:
  "put_object w k = (Inr u, w') \<Longrightarrow> s3_bucket_exists w' \<and> k \<in> set (s3_objects w')"
  by (auto simp: put_object_def remote_def split: option.splits if_splits)

lemma head_object_found:
  "head_object w k = (Inr u, w') \<Longrightarrow> s3_bucket_exists w' \<and> k \<in> set (s3_objects w')"
  by (auto simp: head_object_def remote_def split: option.splits if_splits)

lemma check_exists_True_stored:
  assumes "check_exists ld w d t = (Inr True, w1)"
  shows "\<exists>k. partition_key ld t d = Inr k \<and> s3_bucket_exists w1 \<and> k \<in> set (s3_objects w1)"
proof (cases "partition_key ld t d")
  case (Inl e)
  with assms show ?thesis by (simp add: check_exists_def)
next
  case (Inr k)
  obtain x w' where h: "head_object w k = (x, w')" by (cases "head_object w k")
  from assms Inr h have "x = Inr () \<and> w1 = w'"
    by (auto simp: check_exists_def split: sum.splits exn.splits if_splits)
  with head_object_found [of w k "()" w'] h Inr show ?thesis by simp
qed

lemma upload_events_stored:
  assumes "upload_events ld w df d t = (Inr key, w3)" "\<not> df_empty df"
  shows "\<exists>k. partition_key ld t d = Inr k \<and> s3_bucket_exists w3 \<and> k \<in> set (s3_objects w3)"
proof (cases "partition_key ld t d")
  case (Inl e)
  with assms show ?thesis by (simp add: upload_events_def)
next
  case k: (Inr k)
  show ?thesis
  proof (cases "to_parquet w df")
    case (Inl e)
    with assms k show ?thesis by (simp add: upload_events_def)
  next
    case pq: (Inr n)
    obtain x w1 where po: "put_object w k = (x, w1)" by (cases "put_object w k")
    show ?thesis
    proof (cases x)
      case (Inl e)
      with assms k pq po show ?thesis by (simp add: upload_events_def)
    next
      case (Inr u)
      obtain y w2 where pm:
        "put_object w1 (replace ''/data.parquet'' ''/metadata.json'' k) = (y, w2)"
        by (cases "put_object w1 (replace ''/data.parquet'' ''/metadata.json'' k)")
      from assms k pq po Inr pm have w3: "w3 = w2"
        by (cases y) (simp_all add: upload_events_def upload_metadata_def)
      from po Inr have "s3_bucket_exists w1 \<and> k \<in> set (s3_objects w1)"
        using put_object_stores by blast
      with put_object_keeps [OF pm] w3 k show ?thesis by auto
    qed
  qed
qed

lemma check_exists_present:
  assumes "partition_key ld t d = Inr k" "s3_bucket_exists w" "k \<in> set (s3_objects w)"
    and "faults w (length (trace w)) = None"
  shows "check_exists ld w d t = (Inr True, w\<lparr>trace := trace w @ [HeadObject k]\<rparr>)"
  using assms by (simp add: check_exists_def head_object_def remote_def)

lemma run_daily_success_stored:
  assumes "run_daily p w (Some d) sk = (Inr r, w')" "success r"
  shows "\<exists>k. partition_key (loader p) ''events'' d = Inr k \<and> s3_bucket_exists w'
             \<and> k \<in> set (s3_objects w')"
proof -
  obtain c w1 where c:
    "(if sk then check_exists (loader p) w d ''events'' else (Inr False, w)) = (c, w1)"
    by (cases "if sk then check_exists (loader p) w d ''events'' else (Inr False, w)")
  obtain x w2 where x: "extract_events (extractor p) w1 d = (x, w2)"
    by (cases "extract_events (extractor p) w1 d")
  show ?thesis
  proof (cases c)
    case (Inl e)
    with c have h: "(if sk then check_exists (loader p) w d ''events'' else (Inr False, w)) = (Inl e, w1)"
      by simp
    from run_daily_check_raises [OF h] assms show ?thesis by (simp add: failed_result_def)
  next
    case (Inr b)
    show ?thesis
    proof (cases b)
      case True
      with c Inr have h: "(if sk then check_exists (loader p) w d ''events'' else (Inr False, w)) = (Inr True, w1)"
        by simp
      then have ce: "check_exists (loader p) w d ''events'' = (Inr True, w1)"
        by (cases sk) simp_all
      from run_daily_skips [OF h] assms have "w' = w1" by simp
      with check_exists_True_stored [OF ce] show ?thesis by simp
    next
      case False
      with c Inr have h: "(if sk then check_exists (loader p) w d ''events'' else (Inr False, w)) = (Inr False, w1)"
        by simp
      show ?thesis
      proof (cases x)
        case (Inl e)
        with x have hx: "extract_events (extractor p) w1 d = (Inl e, w2)" by simp
        from run_daily_extract_raises [OF h hx] assms show ?thesis by (simp add: failed_result_def)
      next
        case df: (Inr df)
        with x have hx: "extract_events (extractor p) w1 d = (Inr df, w2)" by simp
        obtain u w3 where u: "upload_events (loader p) w2 df d ''events'' = (u, w3)"
          by (cases "upload_events (loader p) w2 df d ''events''")
        show ?thesis
        proof (cases "df_empty df")
          case True
          from run_daily_no_data [OF h hx True] assms show ?thesis by (simp add: failed_result_def)
        next
          case nonempty: False
          show ?thesis
          proof (cases u)
            case (Inl e)
            with u have hu: "upload_events (loader p) w2 df d ''events'' = (Inl e, w3)" by simp
            from run_daily_upload_raises [OF h hx nonempty hu] assms show ?thesis
              by (simp add: failed_result_def)
          next
            case key: (Inr key)
            with u have hu: "upload_events (loader p) w2 df d ''events'' = (Inr key, w3)" by simp
            from run_daily_uploads [OF h hx nonempty hu] assms have "w' = w3" by simp
            with upload_events_stored [OF hu nonempty] show ?thesis by simp
          qed
        qed
      qed
    qed
  qed
qed

text \<open>
  Claim C5, amended. If the first \<open>run_daily(d, skip_existing=true)\<close> ended with success
  (it uploaded the day or skipped it) and the existence check of the second call is not
  hit by a transport fault, the second call returns the skipped result, and its only
  remote call is the \<open>head_object\<close> of the day's data object: nothing is extracted.
\<close>

theorem second_run_skips:
  assumes "run_daily p w (Some d) True = (Inr r1, w1)"
    and "success r1"
    and "faults w1 (length (trace w1)) = None"
  shows "\<exists>k. partition_key (loader p) ''events'' d = Inr k
           \<and> run_daily p w1 (Some d) True
               = (Inr (skipped_result d), w1\<lparr>trace := trace w1 @ [HeadObject k]\<rparr>)"
proof -
  from run_daily_success_stored [OF assms(1) assms(2)] obtain k where
    k: "partition_key (loader p) ''events'' d = Inr k" "s3_bucket_exists w1"
       "k \<in> set (s3_objects w1)"
    by blast
  have "check_exists (loader p) w1 d ''events''
          = (Inr True, w1\<lparr>trace := trace w1 @ [HeadObject k]\<rparr>)"
    by (rule check_exists_present [OF k assms(3)])
  then have "(if True then check_exists (loader p) w1 d ''events'' else (Inr False, w1))
          = (Inr True, w1\<lparr>trace := trace w1 @ [HeadObject k]\<rparr>)"
    by simp
  from run_daily_skips [OF this] k(1) show ?thesis by blast
qed

lemma example_first_run_0102:
  "run_daily example_pipeline example_world (Some ''2024-01-02'') True
   = (Inr (uploaded_result ''2024-01-02'' 5 (Some ''bronze/ga4/events/year=2024/month=01/day=02/data.parquet'')),
      example_world\<lparr>trace := [HeadObject ''bronze/ga4/events/year=2024/month=01/day=02/data.parquet'', GetTable ''proj.ds.events_20240102'', RunQuery ''SELECT proj.ds.events_20240102 20240102'', PutObject ''bronze/ga4/events/year=2024/month=01/day=02/data.parquet'', PutObject ''bronze/ga4/events/year=2024/month=01/day=02/metadata.json''], s3_objects := [''bronze/ga4/events/year=2024/month=01/day=02/metadata.json'', ''bronze/ga4/events/year=2024/month=01/day=02/data.parquet'', ''bronze/ga4/events/year=2024/month=01/day=01/data.parquet'']\<rparr>)"
  by (simp add: example_loader example_extractor check_exists_def partition_key_def world_ops example_world_def extract_events_def table_exists_def replace.simps build_events_query_def load_query_def df_empty_def DataFrame_def upload_events_def upload_metadata_def run_daily_def run_daily_try_def Let_def uploaded_result_def)

theorem second_run_skips_witness:
  "run_daily example_pipeline
     (snd (run_daily example_pipeline example_world (Some ''2024-01-02'') True))
     (Some ''2024-01-02'') True
   = (Inr (skipped_result ''2024-01-02''),
      example_world\<lparr>trace := [HeadObject ''bronze/ga4/events/year=2024/month=01/day=02/data.parquet'', GetTable ''proj.ds.events_20240102'', RunQuery ''SELECT proj.ds.events_20240102 20240102'', PutObject ''bronze/ga4/events/year=2024/month=01/day=02/data.parquet'', PutObject ''bronze/ga4/events/year=2024/month=01/day=02/metadata.json'',
                              HeadObject ''bronze/ga4/events/year=2024/month=01/day=02/data.parquet''],
        s3_objects := [''bronze/ga4/events/year=2024/month=01/day=02/metadata.json'', ''bronze/ga4/events/year=2024/month=01/day=02/data.parquet'', ''bronze/ga4/events/year=2024/month=01/day=01/data.parquet'']\<rparr>)"
proof -
  have s: "success (uploaded_result ''2024-01-02'' 5 (Some ''bronze/ga4/events/year=2024/month=01/day=02/data.parquet''))"
    by (simp add: uploaded_result_def)
  have f: "faults (example_world\<lparr>trace := [HeadObject ''bronze/ga4/events/year=2024/month=01/day=02/data.parquet'', GetTable ''proj.ds.events_20240102'', RunQuery ''SELECT proj.ds.events_20240102 20240102'', PutObject ''bronze/ga4/events/year=2024/month=01/day=02/data.parquet'', PutObject ''bronze/ga4/events/year=2024/month=01/day=02/metadata.json''], s3_objects := [''bronze/ga4/events/year=2024/month=01/day=02/metadata.json'', ''bronze/ga4/events/year=2024/month=01/day=02/data.parquet'', ''bronze/ga4/events/year=2024/month=01/day=01/data.parquet'']\<rparr>)
             (length (trace (example_world\<lparr>trace := [HeadObject ''bronze/ga4/events/year=2024/month=01/day=02/data.parquet'', GetTable ''proj.ds.events_20240102'', RunQuery ''SELECT proj.ds.events_20240102 20240102'', PutObject ''bronze/ga4/events/year=2024/month=01/day=02/data.parquet'', PutObject ''bronze/ga4/events/year=2024/month=01/day=02/metadata.json''], s3_objects := [''bronze/ga4/events/year=2024/month=01/day=02/metadata.json'', ''bronze/ga4/events/year=2024/month=01/day=02/data.parquet'', ''bronze/ga4/events/year=2024/month=01/day=01/data.parquet'']\<rparr>))) = None"
    by (simp add: example_world_def)
  from second_run_skips [OF example_first_run_0102 s f]
  show ?thesis by (auto simp: example_first_run_0102 key_0102)
qed

text \<open>
  Claim C5 as stated fails, in two ways. The warehouse has no table for 2024-01-04, so
  the first run ends with \<open>No data found\<close>; the second run is not skipped and asks
  the warehouse again. And after a first run that uploaded 2024-01-02, a second run whose
  existence check meets a server error is not skipped either: it fails.
\<close>

theorem second_run_not_skipped_counterexample:
  "fst (run_daily example_pipeline example_world (Some ''2024-01-04'') True)
     = Inr (failed_result ''2024-01-04'' 0 ''No data found'')
   \<and> fst (run_daily example_pipeline
            (snd (run_daily example_pipeline example_world (Some ''2024-01-04'') True))
            (Some ''2024-01-04'') True)
     = Inr (failed_result ''2024-01-04'' 0 ''No data found'')
   \<and> new_calls (snd (run_daily example_pipeline example_world (Some ''2024-01-04'') True))
         (snd (run_daily example_pipeline
                 (snd (run_daily example_pipeline example_world (Some ''2024-01-04'') True))
                 (Some ''2024-01-04'') True))
     = [HeadObject ''bronze/ga4/events/year=2024/month=01/day=04/data.parquet'', GetTable ''proj.ds.events_20240104'']
   \<and> fst (run_daily example_pipeline (failing_at 5 (ClientError ''500'' ''Internal Server Error'') example_world) (Some ''2024-01-02'') True)
     = Inr (uploaded_result ''2024-01-02'' 5 (Some ''bronze/ga4/events/year=2024/month=01/day=02/data.parquet''))
   \<and> fst (run_daily example_pipeline
            (snd (run_daily example_pipeline (failing_at 5 (ClientError ''500'' ''Internal Server Error'') example_world) (Some ''2024-01-02'') True))
            (Some ''2024-01-02'') True)
     = Inr (failed_result ''2024-01-02'' 0 ''Internal Server Error'')
   \<and> \<not> skipped (failed_result ''2024-01-04'' 0 ''No data found'')
   \<and> \<not> skipped (failed_result ''2024-01-02'' 0 ''Internal Server Error'')"
  by (simp add: example_loader example_extractor check_exists_def partition_key_def world_ops example_world_def extract_events_def table_exists_def replace.simps build_events_query_def load_query_def df_empty_def DataFrame_def upload_events_def upload_metadata_def run_daily_def run_daily_try_def Let_def failed_result_def uploaded_result_def new_calls_def failing_at_def)

section \<open>The status report\<close>



subsection \<open>A source listing that raises\<close>




text \<open>
  The loss shows in the report wherever the sink listing finds a date. Under the standard
  prefix it never does (see C9); under a prefix that holds the \<open>year=\<close> and
  \<open>month=\<close> parts itself it does, and the date is missing from the report.
\<close>

lemma nested_loader:
  "loader nested_pipeline = \<lparr>bucket_name = ''bucket'', prefix = ''year=2024/month=01'', use_localstack = False\<rparr>"
  by (simp add: nested_pipeline_def Pipeline_def S3Loader_def rstrip_def)

lemma nested_extractor:
  "extractor nested_pipeline = \<lparr>project_id = ''proj'', dataset_id = ''ds''\<rparr>"
  by (simp add: nested_pipeline_def Pipeline_def)

lemma nested_common_prefixes:
  "common_prefixes ''year=2024/month=01/events/'' CHR ''/''
     [''year=2024/month=01/events/day=02/data.parquet'']
   = [''year=2024/month=01/events/day=02/'']"
  by (simp add: common_prefixes_def rollup_def)

lemma nested_date_of_prefix:
  "date_of_prefix ''year=2024/month=01/events/day=02/'' = [''2024-01-02'']"
  by (simp add: date_of_prefix_def rstrip_def zfill_def)

lemma nested_test_connections_fault2:
  "test_connections nested_pipeline (failing_at 2 (OtherException ''boom'') nested_world)
   = (\<lparr>bigquery = True, s3 = True\<rparr>,
      (failing_at 2 (OtherException ''boom'') nested_world)\<lparr>trace := [GetDataset ''proj.ds'', HeadBucket]\<rparr>)"
  by (simp add: test_connections_def bq_test_connection_def s3_test_connection_def nested_loader
      nested_extractor world_ops nested_world_def example_world_def failing_at_def)

lemma nested_source_listing_raises:
  "get_available_dates (extractor nested_pipeline)
     ((failing_at 2 (OtherException ''boom'') nested_world)\<lparr>trace := [GetDataset ''proj.ds'', HeadBucket]\<rparr>) 30
   = (Inl (OtherException ''boom''),
      (failing_at 2 (OtherException ''boom'') nested_world)\<lparr>trace := [GetDataset ''proj.ds'', HeadBucket, ListTables ''proj.ds'']\<rparr>)"
  by (simp add: get_available_dates_def nested_extractor world_ops nested_world_def example_world_def failing_at_def)

lemma nested_sink_listing_after_failure:
  "fst (list_available_dates (loader nested_pipeline)
          ((failing_at 2 (OtherException ''boom'') nested_world)\<lparr>trace :=
             [GetDataset ''proj.ds'', HeadBucket, ListTables ''proj.ds'']\<rparr>) ''events'' 30)
   = [''2024-01-02'']"
  by (simp add: list_available_dates_def nested_loader list_objects_v2_def remote_def
      nested_world_def example_world_def failing_at_def nested_common_prefixes nested_date_of_prefix sorted_reverse_def)

lemma nested_sink_date_lost:
  "s3_available_dates (fst (get_pipeline_status nested_pipeline (failing_at 2 (OtherException ''boom'') nested_world))) = []
   \<and> fst (list_available_dates (loader nested_pipeline)
            (snd (get_pipeline_status nested_pipeline (failing_at 2 (OtherException ''boom'') nested_world))) ''events'' 30)
     = [''2024-01-02'']"
  by (simp add: get_pipeline_status_def nested_test_connections_fault2
      nested_source_listing_raises nested_sink_listing_after_failure)

subsection \<open>The missing dates\<close>

lemma example_table_dates:
  assumes "today w = 738900"
  shows "table_date_of w 30 ''events_20240101'' = [''2024-01-01'']"
    and "table_date_of w 30 ''events_20240102'' = [''2024-01-02'']"
    and "table_date_of w 30 ''events_20240103'' = [''2024-01-03'']"
  using assms
  by (simp_all add: table_date_of_def strptime_def FMT_COMPACT_def is_digit_def nonzero_digit_def
      group_def int_of_digits_def digit_val_def MINYEAR_def days_in_month_def is_leap_def
      DAYS_IN_MONTH_def ymd2ord_def days_before_year_def days_before_month_def
      strftime_ymd_def ord2ymd_def fmt_year_def fmt2_def digit_char_def)

lemma nested_test_connections:
  "test_connections nested_pipeline (nested_world)
   = (\<lparr>bigquery = True, s3 = True\<rparr>,
      (nested_world)\<lparr>trace := [GetDataset ''proj.ds'', HeadBucket]\<rparr>)"
  by (simp add: test_connections_def bq_test_connection_def s3_test_connection_def nested_loader
      nested_extractor world_ops nested_world_def example_world_def)

lemma nested_source_listing:
  "get_available_dates (extractor nested_pipeline)
     ((nested_world)\<lparr>trace := [GetDataset ''proj.ds'', HeadBucket]\<rparr>) 30
   = (Inr [''2024-01-03'', ''2024-01-02'', ''2024-01-01''],
      (nested_world)\<lparr>trace := [GetDataset ''proj.ds'', HeadBucket, ListTables ''proj.ds'']\<rparr>)"
proof -
  have td: "today ((nested_world)\<lparr>trace := [GetDataset ''proj.ds'', HeadBucket, ListTables ''proj.ds'']\<rparr>)
            = 738900"
    by (simp add: nested_world_def example_world_def)
  have l: "list_tables ((nested_world)\<lparr>trace := [GetDataset ''proj.ds'', HeadBucket]\<rparr>) ''proj.ds''
           = (Inr [''events_20240101'', ''events_20240102'', ''events_20240103''],
              (nested_world)\<lparr>trace := [GetDataset ''proj.ds'', HeadBucket, ListTables ''proj.ds'']\<rparr>)"
    by (simp add: world_ops nested_world_def example_world_def)
  show ?thesis
    by (simp add: get_available_dates_def nested_extractor l example_table_dates [OF td]
        sorted_reverse_def)
qed

lemma nested_sink_listing:
  "list_available_dates (loader nested_pipeline)
     ((nested_world)\<lparr>trace :=
        [GetDataset ''proj.ds'', HeadBucket, ListTables ''proj.ds'']\<rparr>) ''events'' 30
   = ([''2024-01-02''],
      (nested_world)\<lparr>trace :=
        [GetDataset ''proj.ds'', HeadBucket, ListTables ''proj.ds'',
         ListObjectsV2 ''year=2024/month=01/events/'' CHR ''/'']\<rparr>)"
  by (simp add: list_available_dates_def nested_loader list_objects_v2_def remote_def
      nested_world_def example_world_def nested_common_prefixes nested_date_of_prefix
      sorted_reverse_def)

lemma common_prefixes_example:
  "common_prefixes ''bronze/ga4/events/'' CHR ''/'' [''bronze/ga4/events/year=2024/month=01/day=01/data.parquet'']
   = [''bronze/ga4/events/year=2024/'']"
  by (simp add: common_prefixes_def rollup_def)

lemma example_test_connections:
  "test_connections example_pipeline (example_world)
   = (\<lparr>bigquery = True, s3 = True\<rparr>,
      (example_world)\<lparr>trace := [GetDataset ''proj.ds'', HeadBucket]\<rparr>)"
  by (simp add: test_connections_def bq_test_connection_def s3_test_connection_def example_loader
      example_extractor world_ops example_world_def)

lemma example_source_listing:
  "get_available_dates (extractor example_pipeline)
     ((example_world)\<lparr>trace := [GetDataset ''proj.ds'', HeadBucket]\<rparr>) 30
   = (Inr [''2024-01-03'', ''2024-01-02'', ''2024-01-01''],
      (example_world)\<lparr>trace := [GetDataset ''proj.ds'', HeadBucket, ListTables ''proj.ds'']\<rparr>)"
proof -
  have td: "today ((example_world)\<lparr>trace := [GetDataset ''proj.ds'', HeadBucket, ListTables ''proj.ds'']\<rparr>)
            = 738900"
    by (simp add: example_world_def)
  have l: "list_tables ((example_world)\<lparr>trace := [GetDataset ''proj.ds'', HeadBucket]\<rparr>) ''proj.ds''
           = (Inr [''events_20240101'', ''events_20240102'', ''events_20240103''],
              (example_world)\<lparr>trace := [GetDataset ''proj.ds'', HeadBucket, ListTables ''proj.ds'']\<rparr>)"
    by (simp add: world_ops example_world_def)
  show ?thesis
    by (simp add: get_available_dates_def example_extractor l example_table_dates [OF td]
        sorted_reverse_def)
qed

lemma example_sink_listing:
  "list_available_dates (loader example_pipeline)
     ((example_world)\<lparr>trace :=
        [GetDataset ''proj.ds'', HeadBucket, ListTables ''proj.ds'']\<rparr>) ''events'' 30
   = ([],
      (example_world)\<lparr>trace :=
        [GetDataset ''proj.ds'', HeadBucket, ListTables ''proj.ds'',
         ListObjectsV2 ''bronze/ga4/events/'' CHR ''/'']\<rparr>)"
  by (simp add: list_available_dates_def example_loader list_objects_v2_def remote_def
      example_world_def common_prefixes_example date_of_year_prefix sorted_reverse_def)

text \<open>
  Claim C8. The report of \<open>get_pipeline_status\<close> holds the two lists as
  \<open>get_available_dates\<close> (30 days back) and \<open>list_available_dates\<close> (limit 30)
  returned them, and its missing dates are, as a set, the fetched source dates without
  the fetched sink dates. When the source listing raises nothing was fetched and the
  three lists are empty. Either way the missing dates are the report's source dates
  without its sink dates.
\<close>

theorem missing_dates_set_difference:
  assumes "test_connections p w = (c, w1)"
    and "get_available_dates (extractor p) w1 30 = (x, w2)"
    and "list_available_dates (loader p) w2 ''events'' 30 = (s3_dates, w3)"
  shows "(\<forall>bq_dates. x = Inr bq_dates \<longrightarrow>
            bigquery_available_dates (fst (get_pipeline_status p w)) = bq_dates
            \<and> s3_available_dates (fst (get_pipeline_status p w)) = s3_dates
            \<and> set (missing_dates (fst (get_pipeline_status p w))) = set bq_dates - set s3_dates)
       \<and> (\<forall>e. x = Inl e \<longrightarrow>
            bigquery_available_dates (fst (get_pipeline_status p w)) = []
            \<and> s3_available_dates (fst (get_pipeline_status p w)) = []
            \<and> missing_dates (fst (get_pipeline_status p w)) = [])
       \<and> set (missing_dates (fst (get_pipeline_status p w)))
           = set (bigquery_available_dates (fst (get_pipeline_status p w)))
             - set (s3_available_dates (fst (get_pipeline_status p w)))"
proof (cases x)
  case (Inl e)
  with assms show ?thesis by (simp add: get_pipeline_status_def)
next
  case (Inr bq_dates)
  with assms have "get_pipeline_status p w
      = (\<lparr>connections = c, bigquery_available_dates = bq_dates, s3_available_dates = s3_dates,
          missing_dates = filter (\<lambda>d. d \<notin> set s3_dates) bq_dates\<rparr>, w3)"
    by (simp add: get_pipeline_status_def)
  with Inr show ?thesis by auto
qed

theorem missing_dates_set_difference_witness:
  "(bigquery_available_dates (fst (get_pipeline_status nested_pipeline nested_world))
      = [''2024-01-03'', ''2024-01-02'', ''2024-01-01'']
    \<and> s3_available_dates (fst (get_pipeline_status nested_pipeline nested_world))
      = [''2024-01-02'']
    \<and> set (missing_dates (fst (get_pipeline_status nested_pipeline nested_world)))
      = {''2024-01-03'', ''2024-01-01''})
   \<and> (bigquery_available_dates (fst (get_pipeline_status example_pipeline example_world))
      = [''2024-01-03'', ''2024-01-02'', ''2024-01-01'']
    \<and> s3_available_dates (fst (get_pipeline_status example_pipeline example_world)) = []
    \<and> set (missing_dates (fst (get_pipeline_status example_pipeline example_world)))
      = {''2024-01-03'', ''2024-01-02'', ''2024-01-01''})"
proof
  from missing_dates_set_difference [OF nested_test_connections nested_source_listing
      nested_sink_listing]
  have "bigquery_available_dates (fst (get_pipeline_status nested_pipeline nested_world))
          = [''2024-01-03'', ''2024-01-02'', ''2024-01-01'']
        \<and> s3_available_dates (fst (get_pipeline_status nested_pipeline nested_world))
          = [''2024-01-02'']
        \<and> set (missing_dates (fst (get_pipeline_status nested_pipeline nested_world)))
          = set [''2024-01-03'', ''2024-01-02'', ''2024-01-01''] - set [''2024-01-02'']"
    by blast
  moreover have "set [''2024-01-03'', ''2024-01-02'', ''2024-01-01''] - set [''2024-01-02'']
                   = {''2024-01-03'', ''2024-01-01''}"
    by auto
  ultimately show
    "bigquery_available_dates (fst (get_pipeline_status nested_pipeline nested_world))
      = [''2024-01-03'', ''2024-01-02'', ''2024-01-01'']
    \<and> s3_available_dates (fst (get_pipeline_status nested_pipeline nested_world))
      = [''2024-01-02'']
    \<and> set (missing_dates (fst (get_pipeline_status nested_pipeline nested_world)))
      = {''2024-01-03'', ''2024-01-01''}"
    by simp
next
  from missing_dates_set_difference [OF example_test_connections example_source_listing
      example_sink_listing]
  have "bigquery_available_dates (fst (get_pipeline_status example_pipeline example_world))
          = [''2024-01-03'', ''2024-01-02'', ''2024-01-01'']
        \<and> s3_available_dates (fst (get_pipeline_status example_pipeline example_world)) = []
        \<and> set (missing_dates (fst (get_pipeline_status example_pipeline example_world)))
          = set [''2024-01-03'', ''2024-01-02'', ''2024-01-01''] - set []"
    by blast
  then show
    "bigquery_available_dates (fst (get_pipeline_status example_pipeline example_world))
      = [''2024-01-03'', ''2024-01-02'', ''2024-01-01'']
    \<and> s3_available_dates (fst (get_pipeline_status example_pipeline example_world)) = []
    \<and> set (missing_dates (fst (get_pipeline_status example_pipeline example_world)))
      = {''2024-01-03'', ''2024-01-02'', ''2024-01-01''}"
    by simp
qed

section \<open>The backfill loop\<close>

















section \<open>What strptime returns\<close>






lemma int_of_digits_two: "a \<noteq> CHR '' '' \<Longrightarrow> int_of_digits [a, b] = 10 * digit_val a + digit_val b"
  by (simp add: int_of_digits_def)




lemma two_digits_range:
  assumes "a \<noteq> CHR '' ''" "lo \<le> 10 * digit_val a + digit_val b" "10 * digit_val a + digit_val b \<le> hi"
  shows "lo \<le> int_of_digits [a, b] \<and> int_of_digits [a, b] \<le> hi"
  using assms by (simp add: int_of_digits_two)






section \<open>backfill\<close>







end
